theory Spec2Isabelle
  imports Complex_Main
begin

section \<open>JavaScript values used by the gateway\<close>

text \<open>
  Objects whose shape the code does not fix (compliance profiles, their rule tables, the
  parsed YAML override) are JSON trees.  An object is the list of its own enumerable
  properties in insertion order; keys are assumed not to be canonical array indices, for
  which JavaScript enumerates in numeric order instead.
\<close>

datatype json =
    JNull
  | JBool bool
  | JNum rat
  | JStr string
  | JArr "json list"
  | JObj "(string \<times> json) list"

text \<open>JavaScript truthiness of a parsed value.\<close>

fun js_truthy :: "json \<Rightarrow> bool" where
  "js_truthy JNull = False"
| "js_truthy (JBool b) = b"
| "js_truthy (JNum n) = (n \<noteq> 0)"
| "js_truthy (JStr s) = (s \<noteq> [])"
| "js_truthy (JArr xs) = True"
| "js_truthy (JObj kvs) = True"

text \<open>\<^verbatim>\<open>obj[key] = v\<close> on own properties: an existing key keeps its position.\<close>

fun obj_set :: "('k \<times> 'v) list \<Rightarrow> 'k \<Rightarrow> 'v \<Rightarrow> ('k \<times> 'v) list" where
  "obj_set [] k v = [(k, v)]"
| "obj_set ((k', v') # kvs) k v =
     (if k' = k then (k, v) # kvs else (k', v') # obj_set kvs k v)"

text \<open>\<^verbatim>\<open>delete obj[key]\<close>.\<close>

definition obj_delete :: "('k \<times> 'v) list \<Rightarrow> 'k \<Rightarrow> ('k \<times> 'v) list" where
  "obj_delete kvs k = filter (\<lambda>kv. fst kv \<noteq> k) kvs"

text \<open>
  A value that was thrown: an \<^verbatim>\<open>Error\<close> with its message, or any other value with the
  text \<^verbatim>\<open>String(err)\<close> gives for it.
\<close>

datatype js_thrown = JsError string | JsOther string

text \<open>\<^verbatim>\<open>err instanceof Error ? err.message : String(err)\<close>\<close>

fun thrown_message :: "js_thrown \<Rightarrow> string" where
  "thrown_message (JsError m) = m"
| "thrown_message (JsOther s) = s"

text \<open>
  Template-literal rendering of an integral number (plain decimal, as JavaScript prints
  integers of magnitude below \<open>10\<^sup>2\<^sup>1\<close>).
\<close>

definition digit_char :: "nat \<Rightarrow> char" where
  "digit_char d = ''0123456789'' ! d"

fun nat_digits :: "nat \<Rightarrow> string" where
  "nat_digits n =
     (if n < 10 then [digit_char n]
      else nat_digits (n div 10) @ [digit_char (n mod 10)])"

declare nat_digits.simps [simp del]

definition js_int_string :: "int \<Rightarrow> string" where
  "js_int_string i = (if i < 0 then CHR ''-'' # nat_digits (nat (- i)) else nat_digits (nat i))"

text \<open>\<^verbatim>\<open>xs.join(sep)\<close> on an array of strings.\<close>

fun js_join :: "string \<Rightarrow> string list \<Rightarrow> string" where
  "js_join sep [] = []"
| "js_join sep [x] = x"
| "js_join sep (x # y # ys) = x @ sep @ js_join sep (y # ys)"


section \<open>Finding model (\<^verbatim>\<open>packages/common/src/types.ts\<close>)\<close>

datatype Severity = Critical | High | Medium | Low | Info

text \<open>
  \<open>finding_id\<close> and \<open>finding_file\<close> are the fields \<^verbatim>\<open>id\<close> and \<^verbatim>\<open>file\<close>, and \<open>scan_context\<close>
  below is \<^verbatim>\<open>context\<close>.  An optional field is an \<open>option\<close>; line numbers are integers.
\<close>

record Finding =
  finding_id :: string
  severity :: Severity
  title :: string
  description :: string
  finding_file :: string
  line :: "int option"
  cwe :: "string option"
  compliance :: "string list option"
  remediation :: string
  code_snippet :: "string option"
  fix_snippet :: "string option"

record FileTarget =
  path :: string
  content :: "string option"

text \<open>The profile snapshot of a request: \<^verbatim>\<open>profile.name\<close> and \<^verbatim>\<open>profile.rules\<close> as read off the
  profile object (\<open>None\<close> for \<^verbatim>\<open>undefined\<close>).\<close>

record ProfileRules =
  rules_name :: "json option"
  rules :: "json option"

record ProjectContext =
  language :: "string option"
  framework :: "string option"
  rootDir :: "string option"
  target_url :: "string option"

record ScanRequest =
  files :: "FileTarget list"
  profile :: ProfileRules
  scan_context :: ProjectContext

record ScanMetadata =
  scanner :: string
  version :: string
  duration_ms :: int
  files_scanned :: nat
  timestamp :: string
  warnings :: "string list option"

record ScanResult =
  findings :: "Finding list"
  metadata :: ScanMetadata


section \<open>Deduplication (\<^verbatim>\<open>router/index.ts\<close>, \<^verbatim>\<open>deduplicateFindings\<close>)\<close>

text \<open>\<^verbatim>\<open>${f.line}\<close>: an absent line prints as \<^verbatim>\<open>undefined\<close>.\<close>

definition line_string :: "int option \<Rightarrow> string" where
  "line_string l = (case l of None \<Rightarrow> ''undefined'' | Some n \<Rightarrow> js_int_string n)"

text \<open>\<^verbatim>\<open>f.cwe || f.title\<close>: an absent and an empty \<^verbatim>\<open>cwe\<close> are both falsy.\<close>

definition cwe_or_title :: "Finding \<Rightarrow> string" where
  "cwe_or_title f =
     (case cwe f of None \<Rightarrow> title f | Some c \<Rightarrow> if c = [] then title f else c)"

text \<open>\<^verbatim>\<open>`${f.file}:${f.line}:${f.cwe || f.title}`\<close>\<close>

definition dedup_key :: "Finding \<Rightarrow> string" where
  "dedup_key f = finding_file f @ '':'' @ line_string (line f) @ '':'' @ cwe_or_title f"

text \<open>The filter callback with the set \<^verbatim>\<open>seen\<close> it closes over, threaded through the list.\<close>

fun dedup_filter :: "string set \<Rightarrow> Finding list \<Rightarrow> Finding list" where
  "dedup_filter seen [] = []"
| "dedup_filter seen (f # fs) =
     (if dedup_key f \<in> seen then dedup_filter seen fs
      else f # dedup_filter (insert (dedup_key f) seen) fs)"

definition deduplicateFindings :: "Finding list \<Rightarrow> Finding list" where
  "deduplicateFindings fs = dedup_filter {} fs"

text \<open>The three components the key is built from.\<close>

definition key_triple :: "Finding \<Rightarrow> string \<times> int option \<times> string" where
  "key_triple f = (finding_file f, line f, cwe_or_title f)"

text \<open>
  The policy in the specification's words: the key is the triple of file, line and
  "cwe when present, title otherwise", and a finding is kept exactly when no earlier
  finding of the list has the same triple.  \<open>first_occurrences k xs\<close> keeps the element at
  index \<open>i\<close> exactly when no element at a smaller index has the same \<open>k\<close>.
\<close>

definition spec_key :: "Finding \<Rightarrow> string \<times> int option \<times> string" where
  "spec_key f = (finding_file f, line f, (case cwe f of Some c \<Rightarrow> c | None \<Rightarrow> title f))"

definition first_occurrences :: "('a \<Rightarrow> 'k) \<Rightarrow> 'a list \<Rightarrow> 'a list" where
  "first_occurrences k xs =
     map (\<lambda>i. xs ! i)
       (filter (\<lambda>i. k (xs ! i) \<notin> set (map k (take i xs))) [0..<length xs])"

definition spec_dedup :: "Finding list \<Rightarrow> Finding list" where
  "spec_dedup fs = first_occurrences spec_key fs"

text \<open>No two findings of the list with different triples are printed to the same key.\<close>

definition collision_free :: "Finding list \<Rightarrow> bool" where
  "collision_free fs =
     list_all (\<lambda>f. list_all (\<lambda>g. dedup_key f \<noteq> dedup_key g \<or> key_triple f = key_triple g) fs) fs"


section \<open>Security score (\<^verbatim>\<open>server.ts\<close>, \<^verbatim>\<open>calculateScore\<close>)\<close>

record ScoreResult =
  score :: int
  status :: string
  breakdown :: "(Severity \<times> int) list"

definition weights :: "(Severity \<times> int) list" where
  "weights = [(Critical, 25), (High, 15), (Medium, 8), (Low, 3), (Info, 0)]"

text \<open>\<^verbatim>\<open>weights[f.severity] || 0\<close>\<close>

definition weight_or_zero :: "Severity \<Rightarrow> int" where
  "weight_or_zero s = (case map_of weights s of None \<Rightarrow> 0 | Some w \<Rightarrow> if w = 0 then 0 else w)"

text \<open>\<^verbatim>\<open>(breakdown[f.severity] || 0) + 1\<close>\<close>

definition count_or_zero :: "(Severity \<times> int) list \<Rightarrow> Severity \<Rightarrow> int" where
  "count_or_zero b s = (case map_of b s of None \<Rightarrow> 0 | Some c \<Rightarrow> if c = 0 then 0 else c)"

text \<open>The \<^verbatim>\<open>for\<close> loop over the findings, with \<^verbatim>\<open>deductions\<close> and \<^verbatim>\<open>breakdown\<close> as state.\<close>

fun score_loop :: "Finding list \<Rightarrow> int \<times> (Severity \<times> int) list \<Rightarrow> int \<times> (Severity \<times> int) list" where
  "score_loop [] st = st"
| "score_loop (f # fs) (deductions, b) =
     score_loop fs
       (deductions + weight_or_zero (severity f),
        obj_set b (severity f) (count_or_zero b (severity f) + 1))"

definition calculateScore :: "Finding list \<Rightarrow> ScoreResult" where
  "calculateScore fs =
     (if length fs = 0 then \<lparr>score = 100, status = ''no_findings'', breakdown = []\<rparr>
      else
        let (deductions, b) = score_loop fs (0, []);
            sc = max 0 (100 - deductions);
            st = (if sc \<ge> 80 then ''good'' else if sc \<ge> 50 then ''needs_attention'' else ''critical'')
        in \<lparr>score = sc, status = st, breakdown = b\<rparr>)"

text \<open>The weight table as the specification lists it.\<close>

fun spec_weight :: "Severity \<Rightarrow> int" where
  "spec_weight Critical = 25"
| "spec_weight High = 15"
| "spec_weight Medium = 8"
| "spec_weight Low = 3"
| "spec_weight Info = 0"


section \<open>Scanner client (\<^verbatim>\<open>router/scanner-client.ts\<close>)\<close>

text \<open>
  What \<^verbatim>\<open>fetch\<close> and \<^verbatim>\<open>response.json()\<close> can do.  \<^verbatim>\<open>fetch\<close> rejects (connection refused, DNS
  failure, aborted by its timeout signal) or resolves with a status and a body;
  \<^verbatim>\<open>response.json()\<close> throws on a body that is not JSON or gives the parsed value.  Every
  call is taken to settle one way or the other.
\<close>

datatype 'a json_body = BodyThrows js_thrown | BodyJson 'a

datatype 'a fetch_outcome = FetchRejects js_thrown | FetchResponse nat "'a json_body"

text \<open>
  What a scanner backend's body parses to.  The cast \<^verbatim>\<open>as ScanResult\<close> is erased at run
  time and nothing inspects the value, so any parsed value passes: \<open>Shaped r\<close> is a value of
  the \<^verbatim>\<open>ScanResult\<close> shape, read at that type; \<open>Unshaped v\<close> is any other parsed value
  (\<^verbatim>\<open>null\<close>, \<^verbatim>\<open>{}\<close>, \<^verbatim>\<open>{"foo":1}\<close>, a number), kept as the JSON tree it is.
\<close>

datatype scan_value = Shaped ScanResult | Unshaped json

text \<open>\<^verbatim>\<open>response.ok\<close>\<close>

definition response_ok :: "nat \<Rightarrow> bool" where
  "response_ok st = (200 \<le> st \<and> st \<le> 299)"

text \<open>
  The world a call runs in: what the backend at a URL answers to \<^verbatim>\<open>POST <url>\<close> with a
  request, the readings of \<^verbatim>\<open>Date.now()\<close> in the order the call takes them, and the reading
  of \<^verbatim>\<open>new Date().toISOString()\<close> taken while the result labelled with a scanner name is built.
\<close>

record world =
  fetch_scan :: "string \<Rightarrow> ScanRequest \<Rightarrow> scan_value fetch_outcome"
  date_now :: "nat \<Rightarrow> int"
  date_iso :: "string \<Rightarrow> string"

record ScannerClient =
  baseUrl :: string
  client_name :: string

definition apostrophe :: string where
  "apostrophe = [CHR 0x27]"

text \<open>\<^verbatim>\<open>`Scanner '${this.name}' unavailable: ${message}`\<close>\<close>

definition unavailable_warning :: "string \<Rightarrow> string \<Rightarrow> string" where
  "unavailable_warning name message =
     ''Scanner '' @ apostrophe @ name @ apostrophe @ '' unavailable: '' @ message"

text \<open>
  The body of the \<^verbatim>\<open>try\<close> block: what it returns, or what it throws.  The parsed body of a
  success response is returned whatever it is.
\<close>

definition scan_try :: "world \<Rightarrow> ScannerClient \<Rightarrow> ScanRequest \<Rightarrow> js_thrown + scan_value" where
  "scan_try w c request =
     (case fetch_scan w (baseUrl c @ ''/scan'') request of
        FetchRejects err \<Rightarrow> Inl err
      | FetchResponse st body \<Rightarrow>
          if \<not> response_ok st
          then Inl (JsError (''Scanner '' @ client_name c @ '' returned '' @ nat_digits st))
          else (case body of BodyThrows err \<Rightarrow> Inl err | BodyJson r \<Rightarrow> Inr r))"

text \<open>The result the \<^verbatim>\<open>catch\<close> block builds.\<close>

definition degraded_result :: "world \<Rightarrow> ScannerClient \<Rightarrow> string \<Rightarrow> ScanResult" where
  "degraded_result w c message =
     \<lparr>findings = [],
      metadata = \<lparr>scanner = client_name c, version = ''0.0.0'', duration_ms = 0,
                  files_scanned = 0, timestamp = date_iso w (client_name c),
                  warnings = Some [unavailable_warning (client_name c) message]\<rparr>\<rparr>"

text \<open>
  \<^verbatim>\<open>scan\<close>: the value its promise resolves with.  Nothing thrown inside the \<^verbatim>\<open>try\<close> block
  escapes, and the \<^verbatim>\<open>catch\<close> block itself throws nothing.
\<close>

definition scan :: "world \<Rightarrow> ScannerClient \<Rightarrow> ScanRequest \<Rightarrow> scan_value" where
  "scan w c request =
     (case scan_try w c request of
        Inr v \<Rightarrow> v
      | Inl err \<Rightarrow> Shaped (degraded_result w c (thrown_message err)))"


section \<open>Router (\<^verbatim>\<open>router/index.ts\<close>)\<close>

record ScannerConfig =
  enabled :: bool
  host :: string
  port :: nat

text \<open>The \<^verbatim>\<open>Map\<close> of clients, as its entries in insertion order.\<close>

record Router =
  clients :: "(string \<times> ScannerClient) list"

text \<open>The constructor's loop over \<^verbatim>\<open>Object.entries(config.scanners)\<close>.\<close>

fun register_scanners :: "(string \<times> ScannerConfig) list \<Rightarrow> (string \<times> ScannerClient) list \<Rightarrow> (string \<times> ScannerClient) list" where
  "register_scanners [] cs = cs"
| "register_scanners ((name, sc) # rest) cs =
     register_scanners rest
       (if enabled sc
        then obj_set cs name
               \<lparr>baseUrl = ''http://'' @ host sc @ '':'' @ nat_digits (port sc), client_name = name\<rparr>
        else cs)"

definition new_Router :: "(string \<times> ScannerConfig) list \<Rightarrow> Router" where
  "new_Router scanners = \<lparr>clients = register_scanners scanners []\<rparr>"

text \<open>An entry of the array \<^verbatim>\<open>Promise.allSettled\<close> resolves to.\<close>

datatype 'a settled = Fulfilled 'a | Rejected js_thrown

text \<open>\<^verbatim>\<open>.filter(([name]) => !requestedScanners || requestedScanners.has(name))\<close>\<close>

definition dispatched :: "Router \<Rightarrow> string set option \<Rightarrow> (string \<times> ScannerClient) list" where
  "dispatched r requestedScanners =
     filter (\<lambda>(name, client). (case requestedScanners of None \<Rightarrow> True | Some s \<Rightarrow> name \<in> s))
       (clients r)"

text \<open>
  The loop body on a fulfilled value that is not of the \<^verbatim>\<open>ScanResult\<close> shape.  The three
  property names it reads are defined by no prototype, so on a value other than \<^verbatim>\<open>null\<close>
  the read gives an own property of an object and \<^verbatim>\<open>undefined\<close> otherwise; on \<^verbatim>\<open>null\<close> the
  read throws, which the callers below test first.
\<close>

fun js_member :: "json \<Rightarrow> string \<Rightarrow> json option" where
  "js_member (JObj kvs) k = map_of kvs k"
| "js_member _ k = None"

text \<open>
  \<^verbatim>\<open>push(...x)\<close>: an array spreads to its elements and a string to its code points; anything
  else (\<^verbatim>\<open>undefined\<close>, \<^verbatim>\<open>null\<close>, a number, a boolean, a plain object) is not iterable and the
  spread throws \<^verbatim>\<open>TypeError\<close>.
\<close>

datatype spread = NotIterable | Elements "json list" | CodePoints string

fun js_spread :: "json option \<Rightarrow> spread" where
  "js_spread (Some (JArr xs)) = Elements xs"
| "js_spread (Some (JStr s)) = CodePoints s"
| "js_spread _ = NotIterable"

fun as_strings :: "json list \<Rightarrow> string list option" where
  "as_strings [] = Some []"
| "as_strings (JStr s # xs) = map_option ((#) s) (as_strings xs)"
| "as_strings (x # xs) = None"

text \<open>
  What lines 31 to 33 do with such a value: throw \<^verbatim>\<open>TypeError\<close>, or complete.  When they
  complete having pushed no finding and only strings as warnings, the state stays within
  its declared types and the step is followed exactly; when they push anything else
  (entries of \<^verbatim>\<open>findings\<close>, the code points of a string, warnings that are not strings) the
  run is marked as not followed.
\<close>

datatype loop_step = StepThrows | StepAdds "string list" | StepNotModelled

definition step_done :: "spread \<Rightarrow> spread \<Rightarrow> loop_step" where
  "step_done fitems witems =
     (if fitems = Elements [] \<or> fitems = CodePoints []
      then (case witems of
              Elements ws \<Rightarrow> (case as_strings ws of Some l \<Rightarrow> StepAdds l | None \<Rightarrow> StepNotModelled)
            | _ \<Rightarrow> StepNotModelled)
      else StepNotModelled)"

definition unshaped_step :: "json \<Rightarrow> loop_step" where
  "unshaped_step v =
     (if v = JNull then StepThrows
      else
        (case js_spread (js_member v ''findings'') of
           NotIterable \<Rightarrow> StepThrows
         | fitems \<Rightarrow>
             (case js_member v ''metadata'' of
                None \<Rightarrow> StepThrows
              | Some m \<Rightarrow>
                  if m = JNull then StepThrows
                  else
                    (case js_member m ''warnings'' of
                       None \<Rightarrow> step_done fitems (Elements [])
                     | Some wv \<Rightarrow>
                         if \<not> js_truthy wv then step_done fitems (Elements [])
                         else
                           (case js_spread (Some wv) of
                              NotIterable \<Rightarrow> StepThrows
                            | witems \<Rightarrow> step_done fitems witems)))))"

text \<open>
  The loop over the settled results, with \<^verbatim>\<open>allFindings\<close> and \<^verbatim>\<open>allWarnings\<close> as state.  It
  stands outside any \<^verbatim>\<open>try\<close>: a \<^verbatim>\<open>TypeError\<close> raised in it ends the loop and the call.  After
  a step that is not followed the remaining results are still examined, since a later
  throwing value ends the call whatever the arrays hold.
\<close>

datatype collect_outcome =
    Collected "Finding list \<times> string list"
  | CollectThrows
  | CollectNotModelled

fun collect_results :: "scan_value settled list \<Rightarrow> Finding list \<times> string list \<Rightarrow> collect_outcome" where
  "collect_results [] acc = Collected acc"
| "collect_results (Fulfilled (Shaped v) # rest) (allFindings, allWarnings) =
     collect_results rest
       (allFindings @ findings v,
        (case warnings (metadata v) of None \<Rightarrow> allWarnings | Some ws \<Rightarrow> allWarnings @ ws))"
| "collect_results (Fulfilled (Unshaped v) # rest) (allFindings, allWarnings) =
     (case unshaped_step v of
        StepThrows \<Rightarrow> CollectThrows
      | StepAdds ws \<Rightarrow> collect_results rest (allFindings, allWarnings @ ws)
      | StepNotModelled \<Rightarrow>
          (case collect_results rest (allFindings, allWarnings) of
             CollectThrows \<Rightarrow> CollectThrows
           | _ \<Rightarrow> CollectNotModelled))"
| "collect_results (Rejected err # rest) acc = collect_results rest acc"

text \<open>
  How the promise \<^verbatim>\<open>scanAll\<close> returns settles: resolved with the merged result, rejected
  with the \<^verbatim>\<open>TypeError\<close> the loop raised, or a run that is not followed.
\<close>

datatype scan_all_outcome = Resolves ScanResult | RejectsTypeError | MergeNotModelled

definition scanAll :: "world \<Rightarrow> Router \<Rightarrow> ScanRequest \<Rightarrow> string set option \<Rightarrow> scan_all_outcome" where
  "scanAll w r request requestedScanners =
     (let start = date_now w 0;
          results = map (\<lambda>(name, client). Fulfilled (scan w client request))
                      (dispatched r requestedScanners)
      in case collect_results results ([], []) of
           CollectThrows \<Rightarrow> RejectsTypeError
         | CollectNotModelled \<Rightarrow> MergeNotModelled
         | Collected (allFindings, allWarnings) \<Rightarrow>
             Resolves
               \<lparr>findings = deduplicateFindings allFindings,
                metadata = \<lparr>scanner = ''safeweave-gateway'', version = ''0.1.0'',
                            duration_ms = date_now w 1 - start,
                            files_scanned = length (files request),
                            timestamp = date_iso w ''safeweave-gateway'',
                            warnings = (if length allWarnings > 0 then Some allWarnings else None)\<rparr>\<rparr>)"

definition scanWith :: "world \<Rightarrow> Router \<Rightarrow> string \<Rightarrow> ScanRequest \<Rightarrow> scan_value" where
  "scanWith w r scannerName request =
     (case map_of (clients r) scannerName of
        None \<Rightarrow>
          Shaped
            \<lparr>findings = [],
             metadata = \<lparr>scanner = scannerName, version = ''0.0.0'', duration_ms = 0,
                         files_scanned = 0, timestamp = date_iso w scannerName,
                         warnings = None\<rparr>\<rparr>
      | Some client \<Rightarrow> scan w client request)"

text \<open>What a backend's result contributes to \<^verbatim>\<open>allWarnings\<close>.\<close>

definition returned_warnings :: "ScanResult \<Rightarrow> string list" where
  "returned_warnings v = (case warnings (metadata v) of None \<Rightarrow> [] | Some ws \<Rightarrow> ws)"

text \<open>
  A warning names a backend when it has the form the client gives its own warning about
  that backend; the specification's reading of the one-failure case asks for exactly one
  such entry.
\<close>

definition names_backend :: "string \<Rightarrow> string \<Rightarrow> bool" where
  "names_backend name warning =
     (take (length (unavailable_warning name [])) warning = unavailable_warning name [])"

definition exactly_one_naming :: "string \<Rightarrow> string list option \<Rightarrow> bool" where
  "exactly_one_naming name ws =
     (length (filter (names_backend name) (case ws of None \<Rightarrow> [] | Some l \<Rightarrow> l)) = 1)"


section \<open>Profile manager (\<^verbatim>\<open>profiles/index.ts\<close>)\<close>

type_synonym obj = "(string \<times> json) list"

text \<open>The dash of the two descriptions that have one (U+2014, as its UTF-8 bytes).\<close>

definition em_dash :: string where
  "em_dash = [CHR 0xE2, CHR 0x80, CHR 0x94]"

definition standard_profile :: obj where
  "standard_profile =
     [(''name'', JStr ''standard''),
      (''version'', JStr ''1.0''),
      (''description'', JStr (''Standard security profile '' @ em_dash @ '' OWASP Top 10, common CVEs, secrets detection'')),
      (''severity_thresholds'', JObj [(''error'', JStr ''high''), (''warn'', JStr ''medium'')]),
      (''rules'', JObj
           [(''sast'', JObj [(''enabled'', JBool True), (''rulesets'', JArr [JStr ''owasp-top-10''])]),
            (''dependencies'', JObj [(''enabled'', JBool True), (''max_cvss_score'', JNum 7), (''require_lockfile'', JBool True)]),
            (''secrets'', JObj [(''enabled'', JBool True)])])]"

definition hardened_profile :: obj where
  "hardened_profile =
     [(''name'', JStr ''hardened''),
      (''version'', JStr ''1.0''),
      (''description'', JStr (''Hardened security profile '' @ em_dash @ '' strict thresholds, crypto requirements'')),
      (''severity_thresholds'', JObj [(''error'', JStr ''medium''), (''warn'', JStr ''low'')]),
      (''rules'', JObj
           [(''sast'', JObj [(''enabled'', JBool True), (''rulesets'', JArr [JStr ''owasp-top-10'', JStr ''crypto-best-practices'', JStr ''auth-best-practices'']), (''custom_rules'', JArr [JStr ''enforce-tls-1.2-minimum'', JStr ''no-eval'', JStr ''no-dynamic-require''])]),
            (''dependencies'', JObj [(''enabled'', JBool True), (''max_cvss_score'', JNum 4), (''blocked_licenses'', JArr [JStr ''AGPL-3.0'']), (''require_lockfile'', JBool True)]),
            (''secrets'', JObj [(''enabled'', JBool True)])])]"

definition owasp_profile :: obj where
  "owasp_profile =
     [(''name'', JStr ''owasp''),
      (''version'', JStr ''1.0''),
      (''description'', JStr ''OWASP Top 10 focused profile''),
      (''severity_thresholds'', JObj [(''error'', JStr ''high''), (''warn'', JStr ''medium'')]),
      (''rules'', JObj
           [(''sast'', JObj [(''enabled'', JBool True), (''rulesets'', JArr [JStr ''owasp-top-10'', JStr ''injection'', JStr ''xss'', JStr ''ssrf'', JStr ''broken-access-control'']), (''custom_rules'', JArr [JStr ''no-eval'', JStr ''no-innerHTML'', JStr ''enforce-parameterized-queries''])]),
            (''dependencies'', JObj [(''enabled'', JBool True), (''max_cvss_score'', JNum 7), (''require_lockfile'', JBool True)]),
            (''secrets'', JObj [(''enabled'', JBool True)]),
            (''iac'', JObj [(''enabled'', JBool True)]),
            (''dast'', JObj [(''enabled'', JBool True), (''checks'', JArr [JStr ''sql-injection'', JStr ''xss-reflected'', JStr ''xss-stored'', JStr ''ssrf'', JStr ''open-redirect''])])])]"

definition soc2_profile :: obj where
  "soc2_profile =
     [(''name'', JStr ''soc2''),
      (''version'', JStr ''1.0''),
      (''description'', JStr ''SOC 2 Type II compliance profile''),
      (''severity_thresholds'', JObj [(''error'', JStr ''medium''), (''warn'', JStr ''low'')]),
      (''rules'', JObj
           [(''sast'', JObj [(''enabled'', JBool True), (''rulesets'', JArr [JStr ''owasp-top-10'', JStr ''auth-best-practices'', JStr ''crypto-best-practices'']), (''custom_rules'', JArr [JStr ''enforce-tls-1.2-minimum'', JStr ''require-audit-logging'', JStr ''enforce-session-timeout'', JStr ''no-hardcoded-credentials''])]),
            (''dependencies'', JObj [(''enabled'', JBool True), (''max_cvss_score'', JNum 5), (''require_lockfile'', JBool True)]),
            (''secrets'', JObj [(''enabled'', JBool True)]),
            (''container'', JObj [(''enabled'', JBool True), (''require_non_root'', JBool True)]),
            (''iac'', JObj [(''enabled'', JBool True)])])]"

definition pci_dss_profile :: obj where
  "pci_dss_profile =
     [(''name'', JStr ''pci-dss''),
      (''version'', JStr ''1.0''),
      (''description'', JStr ''PCI DSS v4.0 compliance profile''),
      (''severity_thresholds'', JObj [(''error'', JStr ''medium''), (''warn'', JStr ''low'')]),
      (''rules'', JObj
           [(''sast'', JObj [(''enabled'', JBool True), (''rulesets'', JArr [JStr ''owasp-top-10'', JStr ''crypto-best-practices'', JStr ''auth-best-practices'']), (''custom_rules'', JArr [JStr ''enforce-tls-1.2-minimum'', JStr ''no-weak-ciphers'', JStr ''no-plaintext-pan'', JStr ''enforce-input-validation'', JStr ''require-audit-logging'', JStr ''enforce-session-timeout''])]),
            (''dependencies'', JObj [(''enabled'', JBool True), (''max_cvss_score'', JNum 4), (''blocked_licenses'', JArr [JStr ''AGPL-3.0'']), (''require_lockfile'', JBool True)]),
            (''secrets'', JObj [(''enabled'', JBool True)]),
            (''container'', JObj [(''enabled'', JBool True), (''require_non_root'', JBool True), (''blocked_base_images'', JArr [JStr ''latest''])]),
            (''iac'', JObj [(''enabled'', JBool True)])])]"

definition hipaa_profile :: obj where
  "hipaa_profile =
     [(''name'', JStr ''hipaa''),
      (''version'', JStr ''1.0''),
      (''description'', JStr ''HIPAA Security Rule compliance profile''),
      (''severity_thresholds'', JObj [(''error'', JStr ''medium''), (''warn'', JStr ''low'')]),
      (''rules'', JObj
           [(''sast'', JObj [(''enabled'', JBool True), (''rulesets'', JArr [JStr ''owasp-top-10'', JStr ''crypto-best-practices'', JStr ''auth-best-practices'']), (''custom_rules'', JArr [JStr ''enforce-tls-1.2-minimum'', JStr ''enforce-encryption-at-rest'', JStr ''no-phi-in-logs'', JStr ''require-audit-logging'', JStr ''enforce-access-control'', JStr ''enforce-session-timeout''])]),
            (''dependencies'', JObj [(''enabled'', JBool True), (''max_cvss_score'', JNum 4), (''require_lockfile'', JBool True)]),
            (''secrets'', JObj [(''enabled'', JBool True)]),
            (''container'', JObj [(''enabled'', JBool True), (''require_non_root'', JBool True)]),
            (''iac'', JObj [(''enabled'', JBool True)])])]"

definition BUILT_IN_PROFILES :: "(string \<times> obj) list" where
  "BUILT_IN_PROFILES =
     [(''standard'', standard_profile), (''hardened'', hardened_profile),
      (''owasp'', owasp_profile), (''soc2'', soc2_profile),
      (''pci-dss'', pci_dss_profile), (''hipaa'', hipaa_profile)]"

text \<open>
  Reading a property of a plain object looks at the object's own properties first and at
  \<^verbatim>\<open>Object.prototype\<close> next; every member found there is a function, except \<^verbatim>\<open>__proto__\<close>,
  which reads as \<^verbatim>\<open>Object.prototype\<close> itself.  All of them are truthy.
\<close>

definition object_prototype_keys :: "string list" where
  "object_prototype_keys =
     [''constructor'', ''__defineGetter__'', ''__defineSetter__'', ''hasOwnProperty'',
      ''__lookupGetter__'', ''__lookupSetter__'', ''isPrototypeOf'', ''propertyIsEnumerable'',
      ''toString'', ''valueOf'', ''__proto__'', ''toLocaleString'']"

datatype 'a js_prop = Own 'a | Inherited string | Undefined

definition js_get :: "(string \<times> 'a) list \<Rightarrow> string \<Rightarrow> 'a js_prop" where
  "js_get ob k =
     (case map_of ob k of
        Some v \<Rightarrow> Own v
      | None \<Rightarrow> if k \<in> set object_prototype_keys then Inherited k else Undefined)"

text \<open>\<^verbatim>\<open>{ ...a, ...b }\<close>\<close>

definition obj_spread :: "('k \<times> 'v) list \<Rightarrow> ('k \<times> 'v) list \<Rightarrow> ('k \<times> 'v) list" where
  "obj_spread a b = fold (\<lambda>kv acc. obj_set acc (fst kv) (snd kv)) b a"

record ProfileManager =
  profiles :: "(string \<times> obj) list"
  activeProfile :: string

definition new_ProfileManager :: "(string \<times> obj) list \<Rightarrow> ProfileManager" where
  "new_ProfileManager customProfiles =
     \<lparr>profiles = obj_spread BUILT_IN_PROFILES customProfiles, activeProfile = ''standard''\<rparr>"

definition getActive :: "ProfileManager \<Rightarrow> obj js_prop" where
  "getActive pm = js_get (profiles pm) (activeProfile pm)"

definition listProfiles :: "ProfileManager \<Rightarrow> string list" where
  "listProfiles pm = map fst (profiles pm)"

definition getProfile :: "ProfileManager \<Rightarrow> string \<Rightarrow> obj js_prop" where
  "getProfile pm name = js_get (profiles pm) name"

text \<open>
  \<^verbatim>\<open>setActive\<close>: the error it throws, or the manager after the assignment.  A profile is an
  object, hence truthy, and so is every member of \<^verbatim>\<open>Object.prototype\<close>: the guard
  \<^verbatim>\<open>!this.profiles[name]\<close> fires only when the lookup gives \<^verbatim>\<open>undefined\<close>.
\<close>

definition setActive :: "ProfileManager \<Rightarrow> string \<Rightarrow> js_thrown + ProfileManager" where
  "setActive pm name =
     (case js_get (profiles pm) name of
        Undefined \<Rightarrow>
          Inl (JsError (''Unknown profile: '' @ name @ ''. Available: ''
                        @ js_join '', '' (listProfiles pm)))
      | _ \<Rightarrow> Inr (pm\<lparr>activeProfile := name\<rparr>))"

text \<open>
  \<^verbatim>\<open>deepMerge\<close>.  \<open>merge_keys\<close> is the loop over \<^verbatim>\<open>Object.keys(source)\<close> with \<^verbatim>\<open>result\<close> as
  its state; \<^verbatim>\<open>tgtVal\<close> is read from the unchanged \<^verbatim>\<open>target\<close>.  A member inherited from
  \<^verbatim>\<open>Object.prototype\<close> is a function, so it never passes \<^verbatim>\<open>typeof tgtVal === 'object'\<close> and the
  own-property lookup decides the branch.  The one exception is the key \<^verbatim>\<open>__proto__\<close>
  when \<^verbatim>\<open>result\<close> has no own property of that name: the assignment then runs the inherited
  setter and adds no own property (the prototype it may install is not part of this model).
\<close>

function merge_keys :: "obj \<Rightarrow> obj \<Rightarrow> obj \<Rightarrow> obj" where
  "merge_keys target result [] = result"
| "merge_keys target result ((key, srcVal) # rest) =
     (if key = ''extends'' then merge_keys target result rest
      else if key = ''__proto__'' \<and> map_of result key = None then merge_keys target result rest
      else (case (srcVal, map_of target key) of
              (JObj s, Some (JObj t)) \<Rightarrow>
                merge_keys target (obj_set result key (JObj (merge_keys t t s))) rest
            | _ \<Rightarrow> merge_keys target (obj_set result key srcVal) rest))"
  by pat_completeness auto
termination
  by (relation "measure (\<lambda>(t, r, s). size_list (size_prod (\<lambda>_. 0) size) s)") auto

definition deepMerge :: "obj \<Rightarrow> obj \<Rightarrow> obj" where
  "deepMerge target source = merge_keys target target source"

text \<open>
  The two keys of an override that the loop passes over, given the object assigned to:
  \<^verbatim>\<open>extends\<close> always, \<^verbatim>\<open>__proto__\<close> when that object has no own property of the name.
\<close>

definition skipped_key :: "obj \<Rightarrow> string \<Rightarrow> bool" where
  "skipped_key r k = (k = ''extends'' \<or> (k = ''__proto__'' \<and> map_of r k = None))"

text \<open>
  The value \<^verbatim>\<open>deepMerge\<close> assigns to a key the override sets: the recursive merge when both
  the override's and the base's value are non-array objects, the override's value otherwise.
\<close>

definition merged_field :: "json option \<Rightarrow> json \<Rightarrow> json" where
  "merged_field tgtVal srcVal =
     (case (srcVal, tgtVal) of
        (JObj s, Some (JObj t)) \<Rightarrow> JObj (deepMerge t s)
      | _ \<Rightarrow> srcVal)"

text \<open>
  The override file \<^verbatim>\<open>.safeweave/profile.yaml\<close>: absent, unreadable or not YAML (the read or
  the parser throws), or parsed to a value.
\<close>

datatype yaml_file = FileMissing | FileThrows js_thrown | FileParsed json

text \<open>\<^verbatim>\<open>parsed?.extends\<close>: only an object can have the property.\<close>

fun parsed_extends :: "json \<Rightarrow> json option" where
  "parsed_extends (JObj kvs) = map_of kvs ''extends''"
| "parsed_extends _ = None"

text \<open>
  What a call of \<^verbatim>\<open>loadCustomProfile\<close> does: throw, return \<^verbatim>\<open>null\<close>, or return the merged
  profile.  Two runs are outside the model and marked so: a truthy \<^verbatim>\<open>extends\<close> that is not a
  string (the lookup key is then its string conversion), and a base name that resolves to a
  member of \<^verbatim>\<open>Object.prototype\<close> instead of a profile.
\<close>

datatype load_outcome = Threw js_thrown | ReturnedNull | Returned obj | OutsideModel

definition loadCustomProfile :: "ProfileManager \<Rightarrow> yaml_file \<Rightarrow> load_outcome \<times> ProfileManager" where
  "loadCustomProfile pm f =
     (case f of
        FileMissing \<Rightarrow> (ReturnedNull, pm)
      | FileThrows err \<Rightarrow> (Threw err, pm)
      | FileParsed parsed \<Rightarrow>
          (case parsed_extends parsed of
             None \<Rightarrow> (ReturnedNull, pm)
           | Some ext \<Rightarrow>
               if \<not> js_truthy ext then (ReturnedNull, pm)
               else (case (ext, parsed) of
                  (JStr baseName, JObj source) \<Rightarrow>
                    (case js_get (profiles pm) baseName of
                       Undefined \<Rightarrow> (Threw (JsError (''Unknown base profile: '' @ baseName)), pm)
                     | Inherited m \<Rightarrow> (OutsideModel, pm)
                     | Own base \<Rightarrow>
                         let merged = deepMerge base source;
                             merged = obj_set merged ''name'' (JStr ''custom'');
                             merged = obj_delete merged ''extends''
                         in (Returned merged,
                             pm\<lparr>profiles := obj_set (profiles pm) ''custom'' merged\<rparr>))
                | _ \<Rightarrow> (OutsideModel, pm))))"

text \<open>
  The merge in the specification's words, on one field: an object-valued override field
  merges key by key with an object-valued base field; any other override value replaces the
  base; a field the override does not mention keeps the base value.
\<close>

function spec_merge :: "obj \<Rightarrow> obj \<Rightarrow> obj" where
  "spec_merge target [] = target"
| "spec_merge target ((key, srcVal) # rest) =
     (case (srcVal, map_of target key) of
        (JObj s, Some (JObj t)) \<Rightarrow> spec_merge (obj_set target key (JObj (spec_merge t s))) rest
      | _ \<Rightarrow> spec_merge (obj_set target key srcVal) rest)"
  by pat_completeness auto
termination
  by (relation "measure (\<lambda>(t, s). size_list (size_prod (\<lambda>_. 0) size) s)") auto

text \<open>The custom profile the specification describes for a base and an override.\<close>

definition spec_custom_profile :: "obj \<Rightarrow> obj \<Rightarrow> obj" where
  "spec_custom_profile base source =
     obj_set (obj_delete (spec_merge base (obj_delete source ''extends'')) ''extends'')
       ''name'' (JStr ''custom'')"


section \<open>License client (\<^verbatim>\<open>license.ts\<close>)\<close>

record LicenseValidation =
  valid :: bool
  plan :: "string option"
  features :: "string list"
  expires_at :: "string option"

record CacheEntry =
  entry_result :: LicenseValidation
  expiry :: int

definition CACHE_TTL_MS :: int where
  "CACHE_TTL_MS = 60 * 60 * 1000"

definition INVALID_RESULT :: LicenseValidation where
  "INVALID_RESULT = \<lparr>valid = False, plan = None, features = [], expires_at = None\<rparr>"

text \<open>
  The world of one \<^verbatim>\<open>validate\<close> call: what the license server answers to a key (a rejected
  \<^verbatim>\<open>fetch\<close> covers network errors and the five-second abort), the reading of \<^verbatim>\<open>Date.now()\<close>
  in the cache test and the reading taken when an entry is stored.
\<close>

record license_world =
  post_validate :: "string \<Rightarrow> LicenseValidation fetch_outcome"
  now_at_check :: int
  now_at_store :: int

type_synonym license_cache = "string \<rightharpoonup> CacheEntry"

text \<open>
  The \<^verbatim>\<open>try\<close>/\<^verbatim>\<open>catch\<close> part of \<^verbatim>\<open>validate\<close>.  The third component is the list of keys sent to
  the license server, here always the one key.
\<close>

definition validate_remote :: "license_world \<Rightarrow> license_cache \<Rightarrow> string \<Rightarrow> LicenseValidation \<times> license_cache \<times> string list" where
  "validate_remote w cache key =
     (case post_validate w key of
        FetchRejects err \<Rightarrow> (INVALID_RESULT, cache, [key])
      | FetchResponse st body \<Rightarrow>
          if \<not> response_ok st then (INVALID_RESULT, cache, [key])
          else (case body of
                  BodyThrows err \<Rightarrow> (INVALID_RESULT, cache, [key])
                | BodyJson result \<Rightarrow>
                    (result,
                     (if valid result
                      then cache(key \<mapsto> \<lparr>entry_result = result,
                                           expiry = now_at_store w + CACHE_TTL_MS\<rparr>)
                      else cache),
                     [key])))"

definition validate :: "license_world \<Rightarrow> license_cache \<Rightarrow> string \<Rightarrow> LicenseValidation \<times> license_cache \<times> string list" where
  "validate w cache key =
     (case cache key of
        Some cached \<Rightarrow>
          if expiry cached > now_at_check w then (entry_result cached, cache, [])
          else validate_remote w cache key
      | None \<Rightarrow> validate_remote w cache key)"

text \<open>The cache holds no entry for the key that is still valid at the given time.\<close>

definition no_fresh_entry :: "license_cache \<Rightarrow> string \<Rightarrow> int \<Rightarrow> bool" where
  "no_fresh_entry cache key t = (case cache key of None \<Rightarrow> True | Some e \<Rightarrow> expiry e \<le> t)"

text \<open>The license server answered, with a success status, a verdict that says valid.\<close>

definition remote_valid :: "LicenseValidation fetch_outcome \<Rightarrow> bool" where
  "remote_valid out =
     (case out of
        FetchRejects err \<Rightarrow> False
      | FetchResponse st body \<Rightarrow>
          (case body of BodyThrows err \<Rightarrow> False | BodyJson v \<Rightarrow> response_ok st \<and> valid v))"

text \<open>\<^verbatim>\<open>reportUsage\<close>: the body it posts, if it posts one; the answer is discarded.\<close>

record usage_report =
  usage_key :: string
  usage_scanner :: string
  findings_count :: nat
  critical_count :: nat
  high_count :: nat
  medium_count :: nat
  low_count :: nat
  usage_duration_ms :: int

fun count_severities :: "Finding list \<Rightarrow> (Severity \<Rightarrow> nat) \<Rightarrow> (Severity \<Rightarrow> nat)" where
  "count_severities [] counts = counts"
| "count_severities (f # fs) counts =
     count_severities fs (counts(severity f := counts (severity f) + 1))"

definition reportUsage :: "string \<Rightarrow> string \<Rightarrow> Finding list \<Rightarrow> int \<Rightarrow> usage_report option" where
  "reportUsage key scannerLabel fs durationMs =
     (if key = [] then None
      else
        let counts = count_severities fs (\<lambda>_. 0)
        in Some \<lparr>usage_key = key, usage_scanner = scannerLabel, findings_count = length fs,
                 critical_count = counts Critical, high_count = counts High,
                 medium_count = counts Medium, low_count = counts Low,
                 usage_duration_ms = durationMs\<rparr>)"


section \<open>Licensed REST bridge (\<^verbatim>\<open>http-bridge.ts\<close>, \<^verbatim>\<open>POST /api/scan\<close>)\<close>

record ApiScanBody =
  directory :: "string option"
  body_files :: "string list option"
  scanners :: "string list option"
  body_target_url :: "string option"

text \<open>
  What \<^verbatim>\<open>readBody\<close> and \<^verbatim>\<open>JSON.parse\<close> make of the request body: over the size limit, not
  JSON, \<^verbatim>\<open>null\<close>, another falsy primitive, a truthy primitive, or an object (an array counts
  as an object without any of the four fields).
\<close>

datatype api_body =
    BodyTooLarge
  | BodyInvalidJson
  | BodyNullJson
  | BodyFalsyPrimitive
  | BodyTruthyPrimitive
  | BodyObject ApiScanBody

datatype api_payload = ErrorPayload string | ScanPayload ScanResult

record http_response =
  status_code :: nat
  payload :: api_payload

record bridge =
  bridge_router :: Router
  projectDir :: string
  LICENSE_KEY :: string

definition sendJson :: "nat \<Rightarrow> api_payload \<Rightarrow> http_response" where
  "sendJson st data = \<lparr>status_code = st, payload = data\<rparr>"

text \<open>
  What the route does with a request: the response it sends together with the usage
  report it posts, if any; or a run that is not followed, when the merge it awaits is
  not.
\<close>

datatype route_answer = Sent http_response "usage_report option" | AnswerNotModelled

fun answer_status :: "route_answer \<Rightarrow> nat option" where
  "answer_status (Sent response usage) = Some (status_code response)"
| "answer_status AnswerNotModelled = None"

text \<open>
  The handler from the parsed body on.  The bridge's profile manager is the one built at
  start-up and never changed, so \<^verbatim>\<open>getActive()\<close> is the built-in \<^verbatim>\<open>standard\<close> profile; a
  \<^verbatim>\<open>TypeError\<close> raised on the way, the one that rejects \<^verbatim>\<open>scanAll\<close> included, reaches the
  outer \<^verbatim>\<open>catch\<close>, which answers 500.
\<close>

definition run_scan :: "world \<Rightarrow> bridge \<Rightarrow> ApiScanBody \<Rightarrow> route_answer" where
  "run_scan w br body =
     (let dir = (case directory body of
                   None \<Rightarrow> projectDir br
                 | Some d \<Rightarrow> if d = [] then projectDir br else d)
      in case getActive (new_ProfileManager []) of
           Own prof \<Rightarrow>
             let requestedScanners =
                   (case scanners body of
                      None \<Rightarrow> None
                    | Some l \<Rightarrow> if length l > 0 then Some (set l) else None);
                 fs = (case body_files body of
                         Some l \<Rightarrow> map (\<lambda>f. \<lparr>path = f, content = None\<rparr>) l
                       | None \<Rightarrow> [\<lparr>path = dir, content = None\<rparr>]);
                 scannerLabel =
                   (case scanners body of
                      None \<Rightarrow> ''all''
                    | Some l \<Rightarrow> if js_join '','' l = [] then ''all'' else js_join '','' l)
             in (case scanAll w (bridge_router br)
                        \<lparr>files = fs,
                         profile = \<lparr>rules_name = map_of prof ''name'',
                                    rules = map_of prof ''rules''\<rparr>,
                         scan_context = \<lparr>language = None, framework = None,
                                         rootDir = Some dir,
                                         target_url = body_target_url body\<rparr>\<rparr>
                        requestedScanners of
                   Resolves result \<Rightarrow>
                     Sent (sendJson 200 (ScanPayload result))
                       (reportUsage (LICENSE_KEY br) scannerLabel (findings result)
                          (duration_ms (metadata result)))
                 | RejectsTypeError \<Rightarrow>
                     Sent (sendJson 500 (ErrorPayload ''Internal server error'')) None
                 | MergeNotModelled \<Rightarrow> AnswerNotModelled)
         | _ \<Rightarrow> Sent (sendJson 500 (ErrorPayload ''Internal server error'')) None)"

definition empty_body :: ApiScanBody where
  "empty_body = \<lparr>directory = None, body_files = None, scanners = None, body_target_url = None\<rparr>"

text \<open>
  The route \<^verbatim>\<open>POST /api/scan\<close> of the licensed bridge.  \<^verbatim>\<open>validate\<close> never throws (its own
  \<^verbatim>\<open>catch\<close> returns \<^verbatim>\<open>INVALID_RESULT\<close>), so the \<^verbatim>\<open>catch\<close> around the license check has no
  branch here.  The result is the answer, the license cache afterwards, and the keys sent
  to the license server.
\<close>

definition api_scan :: "world \<Rightarrow> license_world \<Rightarrow> bridge \<Rightarrow> license_cache \<Rightarrow> api_body \<Rightarrow> route_answer \<times> license_cache \<times> string list" where
  "api_scan w lw br cache body =
     (let (validation, cache', calls) = validate lw cache (LICENSE_KEY br)
      in if \<not> valid validation
         then (Sent (sendJson 403 (ErrorPayload ''Invalid or expired license key. Visit https://safeweave.dev to get a valid key.'')) None,
               cache', calls)
         else
           (case body of
              BodyTooLarge \<Rightarrow>
                (Sent (sendJson 413 (ErrorPayload ''Request body too large'')) None, cache', calls)
            | BodyInvalidJson \<Rightarrow>
                (Sent (sendJson 400 (ErrorPayload ''Invalid JSON in request body'')) None, cache', calls)
            | BodyTruthyPrimitive \<Rightarrow>
                (Sent (sendJson 400 (ErrorPayload ''Request body must be a JSON object'')) None, cache', calls)
            | BodyNullJson \<Rightarrow>
                (Sent (sendJson 500 (ErrorPayload ''Internal server error'')) None, cache', calls)
            | BodyFalsyPrimitive \<Rightarrow> (run_scan w br empty_body, cache', calls)
            | BodyObject b \<Rightarrow> (run_scan w br b, cache', calls)))"


section \<open>Sample data\<close>

definition sample_finding :: "string \<Rightarrow> string \<Rightarrow> int option \<Rightarrow> string option \<Rightarrow> Severity \<Rightarrow> Finding" where
  "sample_finding t f l c sev =
     \<lparr>finding_id = ''SAST-1'', severity = sev, title = t, description = ''found by a scanner'',
      finding_file = f, line = l, cwe = c, compliance = None,
      remediation = ''see the rule documentation'', code_snippet = None, fix_snippet = None\<rparr>"


definition sample_request :: ScanRequest where
  "sample_request =
     \<lparr>files = [\<lparr>path = ''x.js'', content = Some ''eval(input)''\<rparr>],
      profile = \<lparr>rules_name = Some (JStr ''standard''), rules = map_of standard_profile ''rules''\<rparr>,
      scan_context = \<lparr>language = None, framework = None, rootDir = Some ''/srv/app'',
                      target_url = None\<rparr>\<rparr>"

text \<open>A configuration with two enabled backends and a disabled one.\<close>

definition two_scanners :: "(string \<times> ScannerConfig) list" where
  "two_scanners =
     [(''sast'', \<lparr>enabled = True, host = ''127.0.0.1'', port = 9001\<rparr>),
      (''deps'', \<lparr>enabled = True, host = ''127.0.0.1'', port = 9002\<rparr>),
      (''dast'', \<lparr>enabled = False, host = ''127.0.0.1'', port = 9006\<rparr>)]"

definition sast_client :: ScannerClient where
  "sast_client = \<lparr>baseUrl = ''http://127.0.0.1:9001'', client_name = ''sast''\<rparr>"

definition deps_client :: ScannerClient where
  "deps_client = \<lparr>baseUrl = ''http://127.0.0.1:9002'', client_name = ''deps''\<rparr>"

text \<open>What the dependency backend answers, with the warnings it chooses to return.\<close>

definition deps_result :: "string list option \<Rightarrow> ScanResult" where
  "deps_result ws =
     \<lparr>findings = [sample_finding ''Vulnerable lodash'' ''package.json'' None (Some ''CWE-1321'') High],
      metadata = \<lparr>scanner = ''deps'', version = ''0.1.0'', duration_ms = 40, files_scanned = 1,
                  timestamp = ''2026-01-01T00:00:00.000Z'', warnings = ws\<rparr>\<rparr>"

definition backend_world :: "(string \<Rightarrow> scan_value fetch_outcome) \<Rightarrow> world" where
  "backend_world answer =
     \<lparr>fetch_scan = (\<lambda>url request. answer url),
      date_now = (\<lambda>k. 1000 + 50 * int k),
      date_iso = (\<lambda>label. ''2026-01-01T00:00:01.000Z'')\<rparr>"

text \<open>The static-analysis backend refuses connections; every other URL answers as the
  dependency backend does.\<close>

definition sast_down :: "string list option \<Rightarrow> world" where
  "sast_down ws =
     backend_world (\<lambda>url.
        if url = ''http://127.0.0.1:9001/scan'' then FetchRejects (JsError ''fetch failed'')
        else FetchResponse 200 (BodyJson (Shaped (deps_result ws))))"

text \<open>
  The static-analysis backend's port is answered by something that is not the scanner: a
  200 response whose body parses to the given value.  The dependency backend answers as
  before, without warnings.
\<close>

definition sast_answers :: "json \<Rightarrow> world" where
  "sast_answers v =
     backend_world (\<lambda>url.
        if url = ''http://127.0.0.1:9001/scan'' then FetchResponse 200 (BodyJson (Unshaped v))
        else FetchResponse 200 (BodyJson (Shaped (deps_result None))))"


text \<open>The override of the specification's example, and the custom profile it expects.\<close>

definition secrets_off_override :: obj where
  "secrets_off_override =
     [(''extends'', JStr ''standard''),
      (''rules'', JObj [(''secrets'', JObj [(''enabled'', JBool False)])])]"

definition custom_secrets_off :: obj where
  "custom_secrets_off =
     [(''name'', JStr ''custom''),
      (''version'', JStr ''1.0''),
      (''description'', JStr (''Standard security profile '' @ em_dash @ '' OWASP Top 10, common CVEs, secrets detection'')),
      (''severity_thresholds'', JObj [(''error'', JStr ''high''), (''warn'', JStr ''medium'')]),
      (''rules'', JObj
           [(''sast'', JObj [(''enabled'', JBool True), (''rulesets'', JArr [JStr ''owasp-top-10''])]),
            (''dependencies'', JObj [(''enabled'', JBool True), (''max_cvss_score'', JNum 7), (''require_lockfile'', JBool True)]),
            (''secrets'', JObj [(''enabled'', JBool False)])])]"

text \<open>An override that sets a field named \<^verbatim>\<open>extends\<close> inside the rules of one scanner.\<close>

definition nested_extends_override :: obj where
  "nested_extends_override =
     [(''extends'', JStr ''standard''),
      (''rules'', JObj [(''sast'', JObj [(''extends'', JStr ''community-pack'')])])]"


text \<open>License verdicts and a license server with one fixed answer.\<close>

definition pro_verdict :: LicenseValidation where
  "pro_verdict = \<lparr>valid = True, plan = Some ''pro'', features = [''sast'', ''deps''], expires_at = None\<rparr>"

definition revoked_verdict :: LicenseValidation where
  "revoked_verdict = \<lparr>valid = False, plan = Some ''pro'', features = [], expires_at = Some ''2025-01-01T00:00:00.000Z''\<rparr>"

definition license_server :: "LicenseValidation fetch_outcome \<Rightarrow> int \<Rightarrow> int \<Rightarrow> license_world" where
  "license_server answer t_check t_store =
     \<lparr>post_validate = (\<lambda>key. answer), now_at_check = t_check, now_at_store = t_store\<rparr>"


section \<open>Rendering numbers: evaluation rules\<close>

lemma nat_digits_numeral:
  "nat_digits (numeral k) =
     (if numeral k < (10::nat) then [digit_char (numeral k)]
      else nat_digits (numeral k div 10) @ [digit_char (numeral k mod 10)])"
  by (rule nat_digits.simps)

lemma nat_digits_0: "nat_digits 0 = ''0''"
  by (simp add: nat_digits.simps [of 0] digit_char_def)

lemma nat_digits_1: "nat_digits 1 = ''1''" "nat_digits (Suc 0) = ''1''"
  by (simp_all add: nat_digits.simps [of 1] nat_digits.simps [of "Suc 0"] digit_char_def)

lemmas nat_digits_eval = nat_digits_numeral nat_digits_0 nat_digits_1 digit_char_def


section \<open>Deduplication: proofs\<close>

lemma dedup_filter_append:
  "dedup_filter seen (xs @ ys) =
     dedup_filter seen xs @ dedup_filter (seen \<union> dedup_key ` set xs) ys"
  by (induction xs arbitrary: seen) (auto simp: insert_absorb)

lemma dedup_filter_all_seen:
  "dedup_key ` set ys \<subseteq> seen \<Longrightarrow> dedup_filter seen ys = []"
  by (induction ys arbitrary: seen) auto

text \<open>
  Claim C9.  Deduplication is idempotent in the sense of the specification: deduplicating a
  findings list concatenated with itself gives the same result as deduplicating it once.
\<close>

theorem deduplicate_concat_self:
  "deduplicateFindings (l @ l) = deduplicateFindings l"
  by (simp add: deduplicateFindings_def dedup_filter_append dedup_filter_all_seen)

lemma first_occurrences_snoc:
  "first_occurrences k (xs @ [x]) =
     first_occurrences k xs @ (if k x \<in> k ` set xs then [] else [x])"
proof -
  have a: "filter (\<lambda>i. k ((xs @ [x]) ! i) \<notin> set (map k (take i (xs @ [x])))) [0..<length xs]
         = filter (\<lambda>i. k (xs ! i) \<notin> set (map k (take i xs))) [0..<length xs]"
    by (rule filter_cong) (auto simp: nth_append)
  have b: "map (\<lambda>i. (xs @ [x]) ! i) ys = map (\<lambda>i. xs ! i) ys"
    if "set ys \<subseteq> {0..<length xs}" for ys
    using that by (intro map_cong) (auto simp: nth_append)
  have c: "map (\<lambda>i. (xs @ [x]) ! i) (filter P [0..<length xs])
         = map (\<lambda>i. xs ! i) (filter P [0..<length xs])" for P
    by (rule b) auto
  have u: "[0..<length (xs @ [x])] = [0..<length xs] @ [length xs]"
    by simp
  show ?thesis
    unfolding first_occurrences_def u filter_append map_append a c by simp
qed

text \<open>What the code does, on the key string it builds.\<close>

lemma dedup_filter_first_occurrences:
  "dedup_filter {} fs = first_occurrences dedup_key fs"
proof (induction fs rule: rev_induct)
  case Nil
  then show ?case by (simp add: first_occurrences_def)
next
  case (snoc x xs)
  then show ?case
    by (simp add: dedup_filter_append first_occurrences_snoc)
qed

lemma collision_freeD:
  "collision_free fs \<Longrightarrow> f \<in> set fs \<Longrightarrow> g \<in> set fs \<Longrightarrow>
   dedup_key f = dedup_key g \<Longrightarrow> key_triple f = key_triple g"
  unfolding collision_free_def list_all_iff by blast

lemma key_triple_dedup_key:
  "key_triple f = key_triple g \<Longrightarrow> dedup_key f = dedup_key g"
  by (simp add: key_triple_def dedup_key_def)

lemma first_occurrences_cong:
  assumes "\<And>f g. f \<in> set xs \<Longrightarrow> g \<in> set xs \<Longrightarrow> (k f = k g) = (k' f = k' g)"
  shows "first_occurrences k xs = first_occurrences k' xs"
proof -
  have "filter (\<lambda>i. k (xs ! i) \<notin> set (map k (take i xs))) [0..<length xs]
      = filter (\<lambda>i. k' (xs ! i) \<notin> set (map k' (take i xs))) [0..<length xs]"
  proof (rule filter_cong [OF refl])
    fix i assume "i \<in> set [0..<length xs]"
    then have mem: "xs ! i \<in> set xs" by simp
    have eq: "\<And>g. g \<in> set (take i xs) \<Longrightarrow> (k (xs ! i) = k g) = (k' (xs ! i) = k' g)"
      by (rule assms [OF mem in_set_takeD])
    have "(k (xs ! i) \<in> k ` set (take i xs)) = (k' (xs ! i) \<in> k' ` set (take i xs))"
      unfolding image_iff by (rule bex_cong [OF refl eq])
    then show "(k (xs ! i) \<notin> set (map k (take i xs))) = (k' (xs ! i) \<notin> set (map k' (take i xs)))"
      by (simp only: set_map)
  qed
  then show ?thesis by (simp add: first_occurrences_def)
qed

text \<open>
  Claim C3, as stated: deduplication is \<open>spec_dedup\<close>, which keeps a finding exactly when no
  earlier finding has the same (file, line, cwe-when-present-else-title) triple.  It fails
  on two inputs.  In the first the two findings have different triples and the same printed
  key \<^verbatim>\<open>app.js:10:20:XSS\<close>, and the code drops the second.  In the second both findings
  carry an empty \<^verbatim>\<open>cwe\<close>, which \<^verbatim>\<open>f.cwe || f.title\<close> passes over for the differing titles,
  and the code keeps both.
\<close>

theorem dedup_not_spec_dedup:
  "deduplicateFindings
     [sample_finding ''20:XSS'' ''app.js'' (Some 10) None High,
      sample_finding ''XSS'' ''app.js:10'' (Some 20) None High]
   \<noteq> spec_dedup
     [sample_finding ''20:XSS'' ''app.js'' (Some 10) None High,
      sample_finding ''XSS'' ''app.js:10'' (Some 20) None High]
   \<and> deduplicateFindings
     [sample_finding ''SQL injection'' ''a.js'' (Some 10) (Some []) High,
      sample_finding ''XSS'' ''a.js'' (Some 10) (Some []) High]
   \<noteq> spec_dedup
     [sample_finding ''SQL injection'' ''a.js'' (Some 10) (Some []) High,
      sample_finding ''XSS'' ''a.js'' (Some 10) (Some []) High]"
  by code_simp

text \<open>
  Claim C3, amended.  On a findings list in which no two findings with different
  (file, line, cwe-or-title) triples are printed to the same key string, deduplication keeps
  a finding if and only if no earlier finding of the list has the same triple, where
  cwe-or-title is the finding's cwe when that is present and not empty and its title
  otherwise; so of several findings with one triple the first survives and the later ones
  are dropped.
\<close>

theorem dedup_keeps_first_occurrences:
  assumes "collision_free fs"
  shows "deduplicateFindings fs = first_occurrences key_triple fs"
proof -
  have "first_occurrences dedup_key fs = first_occurrences key_triple fs"
  proof (rule first_occurrences_cong)
    fix f g assume "f \<in> set fs" "g \<in> set fs"
    then have "dedup_key f = dedup_key g \<Longrightarrow> key_triple f = key_triple g"
      by (rule collision_freeD [OF assms])
    moreover have "key_triple f = key_triple g \<Longrightarrow> dedup_key f = dedup_key g"
      by (rule key_triple_dedup_key)
    ultimately show "(dedup_key f = dedup_key g) = (key_triple f = key_triple g)"
      by (rule iffI)
  qed
  then show ?thesis
    by (simp add: deduplicateFindings_def dedup_filter_first_occurrences)
qed

theorem dedup_keeps_first_occurrences_witness:
  "collision_free
     [sample_finding ''SQL injection'' ''a.js'' (Some 10) (Some ''CWE-89'') High,
      sample_finding ''XSS'' ''b.js'' (Some 12) None Medium,
      sample_finding ''Tainted query'' ''a.js'' (Some 10) (Some ''CWE-89'') Critical]
   \<and> deduplicateFindings
     [sample_finding ''SQL injection'' ''a.js'' (Some 10) (Some ''CWE-89'') High,
      sample_finding ''XSS'' ''b.js'' (Some 12) None Medium,
      sample_finding ''Tainted query'' ''a.js'' (Some 10) (Some ''CWE-89'') Critical]
   = [sample_finding ''SQL injection'' ''a.js'' (Some 10) (Some ''CWE-89'') High,
      sample_finding ''XSS'' ''b.js'' (Some 12) None Medium]"
proof -
  have cf: "collision_free
     [sample_finding ''SQL injection'' ''a.js'' (Some 10) (Some ''CWE-89'') High,
      sample_finding ''XSS'' ''b.js'' (Some 12) None Medium,
      sample_finding ''Tainted query'' ''a.js'' (Some 10) (Some ''CWE-89'') Critical]"
    by code_simp
  have fo: "first_occurrences key_triple
     [sample_finding ''SQL injection'' ''a.js'' (Some 10) (Some ''CWE-89'') High,
      sample_finding ''XSS'' ''b.js'' (Some 12) None Medium,
      sample_finding ''Tainted query'' ''a.js'' (Some 10) (Some ''CWE-89'') Critical]
   = [sample_finding ''SQL injection'' ''a.js'' (Some 10) (Some ''CWE-89'') High,
      sample_finding ''XSS'' ''b.js'' (Some 12) None Medium]"
    by code_simp
  show ?thesis
    using cf dedup_keeps_first_occurrences [OF cf] fo by simp
qed


text \<open>
  The hypothesis of the amended claim holds whenever no file name of the list contains a
  colon: the printed line has none, so the key splits back into its three parts, and the
  rendering of the line is injective.
\<close>

lemma digit_char_mem: "d < 10 \<Longrightarrow> digit_char d \<in> set ''0123456789''"
  unfolding digit_char_def by (rule nth_mem) simp

lemma digit_char_inj: "d < 10 \<Longrightarrow> e < 10 \<Longrightarrow> digit_char d = digit_char e \<Longrightarrow> d = e"
proof -
  assume d: "d < 10" and e: "e < 10" and eq: "digit_char d = digit_char e"
  have dist: "distinct ''0123456789''" by simp
  have "d < length ''0123456789''" "e < length ''0123456789''" using d e by simp_all
  then show "d = e"
    using eq dist unfolding digit_char_def by (simp only: nth_eq_iff_index_eq)
qed

lemma nat_digits_chars: "c \<in> set (nat_digits n) \<Longrightarrow> c \<in> set ''0123456789''"
proof (induction n rule: nat_digits.induct)
  case (1 n)
  show ?case
  proof (cases "n < 10")
    case True
    then have "nat_digits n = [digit_char n]" by (simp add: nat_digits.simps [of n])
    then show ?thesis using "1.prems" digit_char_mem [OF True] by simp
  next
    case False
    then have u: "nat_digits n = nat_digits (n div 10) @ [digit_char (n mod 10)]"
      by (simp add: nat_digits.simps [of n])
    have "n mod 10 < 10" by simp
    then have m: "digit_char (n mod 10) \<in> set ''0123456789''" by (rule digit_char_mem)
    from "1.prems" u have "c \<in> set (nat_digits (n div 10)) \<or> c = digit_char (n mod 10)" by auto
    then show ?thesis using "1.IH" [OF False] m by blast
  qed
qed

lemma nat_digits_nonempty: "nat_digits n \<noteq> []"
  by (subst nat_digits.simps) simp

lemma nat_digits_small: "n < 10 \<Longrightarrow> nat_digits n = [digit_char n]"
  by (subst nat_digits.simps) simp

lemma nat_digits_large:
  "\<not> n < 10 \<Longrightarrow> nat_digits n = nat_digits (n div 10) @ [digit_char (n mod 10)]"
  by (subst nat_digits.simps) simp

lemma nat_digits_inj: "nat_digits n = nat_digits m \<Longrightarrow> n = m"
proof (induction n arbitrary: m rule: nat_digits.induct)
  case (1 n)
  show ?case
  proof (cases "n < 10")
    case True
    note n = nat_digits_small [OF True]
    show ?thesis
    proof (cases "m < 10")
      case mt: True
      have "[digit_char n] = [digit_char m]"
        using "1.prems" unfolding n nat_digits_small [OF mt] .
      then have "digit_char n = digit_char m" by (simp only: list.inject)
      then show ?thesis by (rule digit_char_inj [OF True mt])
    next
      case False
      have "[digit_char n] = nat_digits (m div 10) @ [digit_char (m mod 10)]"
        using "1.prems" unfolding n nat_digits_large [OF False] .
      then have "nat_digits (m div 10) = []"
        by (cases "nat_digits (m div 10)") simp_all
      then show ?thesis using nat_digits_nonempty by blast
    qed
  next
    case False
    note n = nat_digits_large [OF False]
    show ?thesis
    proof (cases "m < 10")
      case True
      have "nat_digits (n div 10) @ [digit_char (n mod 10)] = [digit_char m]"
        using "1.prems" unfolding n nat_digits_small [OF True] .
      then have "nat_digits (n div 10) = []"
        by (cases "nat_digits (n div 10)") simp_all
      then show ?thesis using nat_digits_nonempty by blast
    next
      case mf: False
      have "nat_digits (n div 10) @ [digit_char (n mod 10)] = nat_digits (m div 10) @ [digit_char (m mod 10)]"
        using "1.prems" unfolding n nat_digits_large [OF mf] .
      then have eq: "nat_digits (n div 10) = nat_digits (m div 10)"
        and dg: "digit_char (n mod 10) = digit_char (m mod 10)"
        by (simp_all only: append1_eq_conv)
      have q: "n div 10 = m div 10" using "1.IH" [OF False eq] .
      have r: "n mod 10 = m mod 10" by (rule digit_char_inj [OF _ _ dg]) simp_all
      have "n = 10 * (n div 10) + n mod 10" by simp
      also have "\<dots> = 10 * (m div 10) + m mod 10" unfolding q r ..
      also have "\<dots> = m" by simp
      finally show ?thesis .
    qed
  qed
qed

lemma nat_digits_hd: "hd (nat_digits n) \<in> set ''0123456789''"
  using nat_digits_chars [of "hd (nat_digits n)" n] nat_digits_nonempty [of n] by simp

lemma js_int_string_inj: "js_int_string i = js_int_string j \<Longrightarrow> i = j"
proof -
  assume eq: "js_int_string i = js_int_string j"
  have nd: "nat_digits k \<noteq> CHR ''-'' # xs" for k xs
  proof
    assume "nat_digits k = CHR ''-'' # xs"
    then have "hd (nat_digits k) = CHR ''-''" by simp
    then show False using nat_digits_hd [of k] by simp
  qed
  show "i = j"
  proof (cases "i < 0"; cases "j < 0")
    assume "i < 0" "j < 0"
    then have "nat_digits (nat (- i)) = nat_digits (nat (- j))"
      using eq by (simp add: js_int_string_def)
    then have "nat (- i) = nat (- j)" by (rule nat_digits_inj)
    then show ?thesis using \<open>i < 0\<close> \<open>j < 0\<close> by simp
  next
    assume "i < 0" "\<not> j < 0"
    then have "nat_digits (nat j) = CHR ''-'' # nat_digits (nat (- i))"
      using eq by (simp add: js_int_string_def)
    then show ?thesis using nd by blast
  next
    assume "\<not> i < 0" "j < 0"
    then have "nat_digits (nat i) = CHR ''-'' # nat_digits (nat (- j))"
      using eq by (simp add: js_int_string_def)
    then show ?thesis using nd by blast
  next
    assume "\<not> i < 0" "\<not> j < 0"
    then have "nat_digits (nat i) = nat_digits (nat j)"
      using eq by (simp add: js_int_string_def)
    then have "nat i = nat j" by (rule nat_digits_inj)
    then show ?thesis using \<open>\<not> i < 0\<close> \<open>\<not> j < 0\<close> by simp
  qed
qed

lemma js_int_string_chars: "c \<in> set (js_int_string i) \<Longrightarrow> c \<in> set ''-0123456789''"
proof (cases "i < 0")
  case True
  assume "c \<in> set (js_int_string i)"
  then have "c = CHR ''-'' \<or> c \<in> set (nat_digits (nat (- i)))"
    using True by (simp add: js_int_string_def)
  then show ?thesis using nat_digits_chars [of c "nat (- i)"] by auto
next
  case False
  assume "c \<in> set (js_int_string i)"
  then have "c \<in> set (nat_digits (nat i))"
    using False by (simp add: js_int_string_def)
  then show ?thesis using nat_digits_chars [of c "nat i"] by auto
qed

lemma js_int_string_hd: "hd (js_int_string i) \<in> set ''-0123456789''"
proof (cases "i < 0")
  case True
  then show ?thesis by (simp add: js_int_string_def)
next
  case False
  then show ?thesis using nat_digits_hd [of "nat i"] by (auto simp: js_int_string_def)
qed

lemma line_string_inj: "line_string a = line_string b \<Longrightarrow> a = b"
proof -
  assume eq: "line_string a = line_string b"
  have u: "js_int_string i \<noteq> ''undefined''" for i
  proof
    assume "js_int_string i = ''undefined''"
    then have "hd (js_int_string i) = CHR ''u''" by simp
    then show False using js_int_string_hd [of i] by simp
  qed
  show "a = b"
  proof (cases a; cases b)
    fix x y assume "a = Some x" "b = Some y"
    then show ?thesis using eq js_int_string_inj by (auto simp: line_string_def)
  next
    fix y assume "a = None" "b = Some y"
    then show ?thesis using eq u [of y] by (auto simp: line_string_def)
  next
    fix x assume "a = Some x" "b = None"
    then show ?thesis using eq u [of x] by (auto simp: line_string_def)
  qed simp
qed

lemma line_string_no_colon: "CHR '':'' \<notin> set (line_string l)"
proof (cases l)
  case None
  then show ?thesis by (simp add: line_string_def)
next
  case (Some n)
  have "CHR '':'' \<notin> set ''-0123456789''" by simp
  then show ?thesis using js_int_string_chars [of "CHR '':''" n] Some by (auto simp: line_string_def)
qed

lemma split_at_first:
  "c \<notin> set a \<Longrightarrow> c \<notin> set a' \<Longrightarrow> a @ c # r = a' @ c # r' \<Longrightarrow> a = a' \<and> r = r'"
proof (induction a arbitrary: a')
  case Nil
  then show ?case by (cases a') auto
next
  case (Cons x a)
  then show ?case by (cases a') auto
qed

lemma dedup_key_inj:
  assumes "CHR '':'' \<notin> set (finding_file f)" and "CHR '':'' \<notin> set (finding_file g)"
    and "dedup_key f = dedup_key g"
  shows "key_triple f = key_triple g"
proof -
  from assms(3) have e: "finding_file f @ CHR '':'' # (line_string (line f) @ CHR '':'' # cwe_or_title f)
       = finding_file g @ CHR '':'' # (line_string (line g) @ CHR '':'' # cwe_or_title g)"
    by (simp add: dedup_key_def)
  from split_at_first [OF assms(1) assms(2) e]
  have f: "finding_file f = finding_file g"
    and r: "line_string (line f) @ CHR '':'' # cwe_or_title f = line_string (line g) @ CHR '':'' # cwe_or_title g"
    by simp_all
  from split_at_first [OF line_string_no_colon line_string_no_colon r]
  have l: "line_string (line f) = line_string (line g)" and c: "cwe_or_title f = cwe_or_title g"
    by simp_all
  from l have "line f = line g" by (rule line_string_inj)
  then show ?thesis using f c by (simp add: key_triple_def)
qed

lemma no_colon_collision_free:
  "\<forall>f\<in>set fs. CHR '':'' \<notin> set (finding_file f) \<Longrightarrow> collision_free fs"
  unfolding collision_free_def list_all_iff using dedup_key_inj by blast


section \<open>Security score: proofs\<close>

lemma weight_or_zero_spec: "weight_or_zero s = spec_weight s"
  by (cases s) (simp_all add: weight_or_zero_def weights_def)

lemma spec_weight_nonneg: "0 \<le> spec_weight s"
  by (cases s) simp_all

lemma score_loop_deductions:
  "fst (score_loop fs (d, b)) = d + (\<Sum>f\<leftarrow>fs. spec_weight (severity f))"
  by (induction fs arbitrary: d b) (simp_all add: weight_or_zero_spec)

lemma sum_weights_nonneg: "0 \<le> (\<Sum>f\<leftarrow>fs. spec_weight (severity f))"
  by (induction fs) (simp_all add: spec_weight_nonneg)

lemma sum_weights_info:
  "\<forall>f\<in>set fs. severity f = Info \<Longrightarrow> (\<Sum>f\<leftarrow>fs. spec_weight (severity f)) = 0"
  by (induction fs) simp_all

lemma score_value:
  "score (calculateScore fs) = max 0 (100 - (\<Sum>f\<leftarrow>fs. spec_weight (severity f)))"
proof (cases fs)
  case Nil
  then show ?thesis by (simp add: calculateScore_def)
next
  case (Cons a as)
  obtain d b where db: "score_loop fs (0, []) = (d, b)"
    by (cases "score_loop fs (0, [])")
  then have "d = (\<Sum>f\<leftarrow>fs. spec_weight (severity f))"
    using score_loop_deductions [of fs 0 "[]"] by simp
  then show ?thesis
    using Cons db by (simp add: calculateScore_def Let_def)
qed

lemma status_value:
  "fs \<noteq> [] \<Longrightarrow> status (calculateScore fs) =
     (if score (calculateScore fs) \<ge> 80 then ''good''
      else if score (calculateScore fs) \<ge> 50 then ''needs_attention'' else ''critical'')"
  by (cases "score_loop fs (0, [])") (auto simp: calculateScore_def Let_def)

text \<open>
  Claim C10.  The score is \<open>max 0 (100 - d)\<close> for \<open>d\<close> the sum of the weights critical 25,
  high 15, medium 8, low 3, info 0 over the findings, so it lies between 0 and 100.  The
  empty list scores 100 with status \<^verbatim>\<open>no_findings\<close>; a non-empty list has status \<^verbatim>\<open>good\<close>
  from 80 up, \<^verbatim>\<open>needs_attention\<close> from 50 to 79 and \<^verbatim>\<open>critical\<close> below 50, so a non-empty
  list of info findings alone scores 100 with status \<^verbatim>\<open>good\<close>.
\<close>

theorem calculateScore_spec:
  "score (calculateScore fs) = max 0 (100 - (\<Sum>f\<leftarrow>fs. spec_weight (severity f)))
   \<and> 0 \<le> score (calculateScore fs) \<and> score (calculateScore fs) \<le> 100
   \<and> (fs = [] \<longrightarrow>
        score (calculateScore fs) = 100 \<and> status (calculateScore fs) = ''no_findings'')
   \<and> (fs \<noteq> [] \<longrightarrow>
        status (calculateScore fs) =
          (if score (calculateScore fs) \<ge> 80 then ''good''
           else if score (calculateScore fs) \<ge> 50 then ''needs_attention'' else ''critical''))
   \<and> (fs \<noteq> [] \<and> (\<forall>f\<in>set fs. severity f = Info) \<longrightarrow>
        score (calculateScore fs) = 100 \<and> status (calculateScore fs) = ''good'')"
proof -
  have a: "score (calculateScore fs) = max 0 (100 - (\<Sum>f\<leftarrow>fs. spec_weight (severity f)))"
    by (rule score_value)
  have b: "0 \<le> score (calculateScore fs) \<and> score (calculateScore fs) \<le> 100"
    using sum_weights_nonneg [of fs] by (simp add: a)
  have c: "fs = [] \<longrightarrow>
        score (calculateScore fs) = 100 \<and> status (calculateScore fs) = ''no_findings''"
    by (simp add: calculateScore_def)
  have d: "fs \<noteq> [] \<longrightarrow>
        status (calculateScore fs) =
          (if score (calculateScore fs) \<ge> 80 then ''good''
           else if score (calculateScore fs) \<ge> 50 then ''needs_attention'' else ''critical'')"
    using status_value by blast
  have e: "fs \<noteq> [] \<and> (\<forall>f\<in>set fs. severity f = Info) \<longrightarrow>
        score (calculateScore fs) = 100 \<and> status (calculateScore fs) = ''good''"
  proof
    assume h: "fs \<noteq> [] \<and> (\<forall>f\<in>set fs. severity f = Info)"
    then have s: "score (calculateScore fs) = 100"
      using sum_weights_info [of fs] by (simp add: a)
    then show "score (calculateScore fs) = 100 \<and> status (calculateScore fs) = ''good''"
      using h status_value [of fs] by simp
  qed
  show ?thesis
    using a b c d e by blast
qed

theorem calculateScore_spec_witness:
  "score (calculateScore []) = 100 \<and> status (calculateScore []) = ''no_findings''
   \<and> score (calculateScore [sample_finding ''Banner'' ''a.js'' None None Info]) = 100
   \<and> status (calculateScore [sample_finding ''Banner'' ''a.js'' None None Info]) = ''good''
   \<and> score (calculateScore
        [sample_finding ''SQL injection'' ''a.js'' (Some 10) (Some ''CWE-89'') Critical,
         sample_finding ''XSS'' ''b.js'' (Some 12) None High,
         sample_finding ''Weak hash'' ''c.js'' (Some 3) None Medium]) = 52
   \<and> status (calculateScore
        [sample_finding ''SQL injection'' ''a.js'' (Some 10) (Some ''CWE-89'') Critical,
         sample_finding ''XSS'' ''b.js'' (Some 12) None High,
         sample_finding ''Weak hash'' ''c.js'' (Some 3) None Medium]) = ''needs_attention''"
  using calculateScore_spec [of "[]"]
    calculateScore_spec [of "[sample_finding ''Banner'' ''a.js'' None None Info]"]
    calculateScore_spec [of
      "[sample_finding ''SQL injection'' ''a.js'' (Some 10) (Some ''CWE-89'') Critical,
        sample_finding ''XSS'' ''b.js'' (Some 12) None High,
        sample_finding ''Weak hash'' ''c.js'' (Some 3) None Medium]"]
  by (simp add: sample_finding_def)


section \<open>Scanner client and router: proofs\<close>

lemma collect_results_shaped:
  "collect_results (map (\<lambda>v. Fulfilled (Shaped v)) vs) (fs, ws) =
     Collected (fs @ concat (map findings vs), ws @ concat (map returned_warnings vs))"
  by (induction vs arbitrary: fs ws) (auto simp: returned_warnings_def split: option.splits)

lemma obj_set_names:
  "\<forall>e\<in>set cs. P (fst e) (snd e) \<Longrightarrow> P k v \<Longrightarrow> \<forall>e\<in>set (obj_set cs k v). P (fst e) (snd e)"
  by (induction cs k v rule: obj_set.induct) auto

lemma register_scanners_names:
  "\<forall>e\<in>set cs. client_name (snd e) = fst e \<Longrightarrow>
   \<forall>e\<in>set (register_scanners cfg cs). client_name (snd e) = fst e"
proof (induction cfg cs rule: register_scanners.induct)
  case (1 cs)
  then show ?case by simp
next
  case (2 name sc rest cs)
  show ?case
  proof (cases "enabled sc")
    case True
    have "\<forall>e\<in>set (obj_set cs name \<lparr>baseUrl = ''http://'' @ host sc @ '':'' @ nat_digits (port sc), client_name = name\<rparr>). client_name (snd e) = fst e"
      by (rule obj_set_names [where P = "\<lambda>k v. client_name v = k"]) (use 2 in auto)
    then show ?thesis using 2 True by simp
  next
    case False
    then show ?thesis using 2 by simp
  qed
qed

lemma new_Router_names:
  "(n, c) \<in> set (clients (new_Router cfg)) \<Longrightarrow> client_name c = n"
  using register_scanners_names [of "[]" cfg] by (auto simp: new_Router_def)

lemma dispatched_subset: "set (dispatched r requested) \<subseteq> set (clients r)"
  by (auto simp: dispatched_def)

lemma scan_of_try_Inr: "scan_try w d req = Inr v \<Longrightarrow> scan w d req = v"
  by (simp add: scan_def)

lemma scans_succeed:
  "map (\<lambda>(m, d). scan_try w d req) cs = map (\<lambda>v. Inr (Shaped v)) vs \<Longrightarrow>
   map (\<lambda>(m, d). Fulfilled (scan w d req)) cs = map (\<lambda>v. Fulfilled (Shaped v)) vs"
proof (induction cs arbitrary: vs)
  case Nil
  then show ?case by simp
next
  case (Cons a cs)
  then obtain v vs' where vs: "vs = v # vs'" by (cases vs) auto
  obtain m d where a: "a = (m, d)" by (cases a)
  from Cons.prems vs a have h: "scan_try w d req = Inr (Shaped v)"
    and t: "map (\<lambda>(m, d). scan_try w d req) cs = map (\<lambda>v. Inr (Shaped v)) vs'"
    by simp_all
  show ?case using Cons.IH [OF t] scan_of_try_Inr [OF h] vs a by simp
qed

lemma scanAll_collect:
  "scanAll w r req requested =
     (case collect_results (map (\<lambda>(name, client). Fulfilled (scan w client req)) (dispatched r requested)) ([], []) of
        CollectThrows \<Rightarrow> RejectsTypeError
      | CollectNotModelled \<Rightarrow> MergeNotModelled
      | Collected (allFindings, allWarnings) \<Rightarrow>
          Resolves
            \<lparr>findings = deduplicateFindings allFindings,
             metadata = \<lparr>scanner = ''safeweave-gateway'', version = ''0.1.0'',
                         duration_ms = date_now w 1 - date_now w 0,
                         files_scanned = length (files req),
                         timestamp = date_iso w ''safeweave-gateway'',
                         warnings = (if length allWarnings > 0 then Some allWarnings else None)\<rparr>\<rparr>)"
  by (simp add: scanAll_def Let_def)

lemma two_scanners_clients:
  "clients (new_Router two_scanners) = [(''sast'', sast_client), (''deps'', deps_client)]"
  by (simp add: new_Router_def two_scanners_def sast_client_def deps_client_def nat_digits_eval)

lemma two_scanners_dispatched:
  "dispatched (new_Router two_scanners) None = [(''sast'', sast_client), (''deps'', deps_client)]"
  by (simp add: dispatched_def two_scanners_clients)

lemma sast_down_sast:
  "scan_try (sast_down ws) sast_client sample_request = Inl (JsError ''fetch failed'')"
  by (simp add: scan_try_def sast_down_def backend_world_def sast_client_def)

lemma sast_down_deps:
  "scan_try (sast_down ws) deps_client sample_request = Inr (Shaped (deps_result ws))"
  by (simp add: scan_try_def sast_down_def backend_world_def deps_client_def response_ok_def)

lemma sast_down_scan_sast:
  "scan (sast_down ws) sast_client sample_request
     = Shaped (degraded_result (sast_down ws) sast_client ''fetch failed'')"
  by (simp add: scan_def sast_down_sast)

lemma sast_down_scan_deps:
  "scan (sast_down ws) deps_client sample_request = Shaped (deps_result ws)"
  by (simp add: scan_def sast_down_deps)

lemma sast_client_name: "client_name sast_client = ''sast''"
  by (simp add: sast_client_def)

lemma sast_down_clock:
  "date_now (sast_down ws) k = 1000 + 50 * int k"
  "date_iso (sast_down ws) label = ''2026-01-01T00:00:01.000Z''"
  by (simp_all add: sast_down_def backend_world_def)

lemma sample_request_files: "length (files sample_request) = 1"
  by (simp add: sample_request_def)

lemma sast_answers_scan_sast:
  "scan (sast_answers v) sast_client sample_request = Unshaped v"
  by (simp add: scan_def scan_try_def sast_answers_def backend_world_def sast_client_def response_ok_def)

lemma sast_answers_scan_deps:
  "scan (sast_answers v) deps_client sample_request = Shaped (deps_result None)"
  by (simp add: scan_def scan_try_def sast_answers_def backend_world_def deps_client_def response_ok_def)

text \<open>
  The \<^verbatim>\<open>try\<close> block throws exactly on a rejected \<^verbatim>\<open>fetch\<close>, a status outside 200 to 299,
  and a success response whose body \<^verbatim>\<open>response.json()\<close> cannot parse.
\<close>

lemma scan_try_throws_iff:
  "(\<exists>err. scan_try w c req = Inl err) \<longleftrightarrow>
     (\<exists>err. fetch_scan w (baseUrl c @ ''/scan'') req = FetchRejects err)
     \<or> (\<exists>st body. fetch_scan w (baseUrl c @ ''/scan'') req = FetchResponse st body \<and> \<not> response_ok st)
     \<or> (\<exists>st err. fetch_scan w (baseUrl c @ ''/scan'') req = FetchResponse st (BodyThrows err))"
  by (auto simp: scan_try_def split: fetch_outcome.splits json_body.splits)

text \<open>
  What \<^verbatim>\<open>scan\<close> does convert.  A rejected \<^verbatim>\<open>fetch\<close>, a status outside 200 to 299, and a body
  that \<^verbatim>\<open>response.json()\<close> cannot parse each give the degraded result: no findings, and as
  only warning the string \<^verbatim>\<open>Scanner '<name>' unavailable: <reason>\<close>.  A parsed body of a
  success response is returned as it is.
\<close>

lemma scan_converts_failures:
  "(fetch_scan w (baseUrl c @ ''/scan'') req = FetchRejects err \<longrightarrow>
      scan w c req = Shaped (degraded_result w c (thrown_message err)))
   \<and> (fetch_scan w (baseUrl c @ ''/scan'') req = FetchResponse st body \<and> \<not> response_ok st \<longrightarrow>
      scan w c req = Shaped (degraded_result w c (''Scanner '' @ client_name c @ '' returned '' @ nat_digits st)))
   \<and> (fetch_scan w (baseUrl c @ ''/scan'') req = FetchResponse st (BodyThrows err) \<and> response_ok st \<longrightarrow>
      scan w c req = Shaped (degraded_result w c (thrown_message err)))
   \<and> (fetch_scan w (baseUrl c @ ''/scan'') req = FetchResponse st (BodyJson v) \<and> response_ok st \<longrightarrow>
      scan w c req = v)
   \<and> findings (degraded_result w c reason) = []
   \<and> warnings (metadata (degraded_result w c reason))
        = Some [''Scanner '' @ apostrophe @ client_name c @ apostrophe @ '' unavailable: '' @ reason]"
  by (simp add: scan_def scan_try_def degraded_result_def unavailable_warning_def)

lemma scan_converts_failures_example:
  "scan (sast_down None) sast_client sample_request
        = Shaped (degraded_result (sast_down None) sast_client ''fetch failed'')
   \<and> scan (backend_world (\<lambda>url. FetchResponse 503 (BodyJson (Shaped (deps_result None))))) sast_client sample_request
        = Shaped (degraded_result (backend_world (\<lambda>url. FetchResponse 503 (BodyJson (Shaped (deps_result None))))) sast_client ''Scanner sast returned 503'')
   \<and> scan (backend_world (\<lambda>url. FetchResponse 200 (BodyThrows (JsError ''Unexpected end of JSON input'')))) sast_client sample_request
        = Shaped (degraded_result (backend_world (\<lambda>url. FetchResponse 200 (BodyThrows (JsError ''Unexpected end of JSON input'')))) sast_client ''Unexpected end of JSON input'')
   \<and> warnings (metadata (degraded_result (sast_down None) sast_client ''fetch failed''))
        = Some [unavailable_warning ''sast'' ''fetch failed'']"
proof -
  have d: "nat_digits 503 = ''503''" by code_simp
  show ?thesis
    by (simp add: d scan_def scan_try_def sast_down_def backend_world_def sast_client_def
          response_ok_def degraded_result_def)
qed

text \<open>
  On a value without an iterable \<^verbatim>\<open>findings\<close> property the router's loop throws.
\<close>

lemma unshaped_step_no_findings:
  "unshaped_step JNull = StepThrows"
  "map_of kvs ''findings'' = None \<Longrightarrow> unshaped_step (JObj kvs) = StepThrows"
  "unshaped_step (JNum x) = StepThrows"
  "unshaped_step (JBool b) = StepThrows"
  by (simp_all add: unshaped_step_def)

text \<open>
  Claim C4 says that \<^verbatim>\<open>scan\<close> converts every malformed response body into the degraded
  result.  It does so for a body that is not JSON (lemma \<open>scan_converts_failures\<close>), but a
  success response whose body parses to something that is not a \<^verbatim>\<open>ScanResult\<close> is returned
  to the caller as it is: no degraded result and no warning.  With the port of \<^verbatim>\<open>sast\<close>
  answering 200 with any JSON value \<open>v\<close>, \<^verbatim>\<open>scan\<close> returns \<open>v\<close>; for \<^verbatim>\<open>{"foo":1}\<close>, \<^verbatim>\<open>{}\<close> and
  \<^verbatim>\<open>null\<close> the router's loop then throws on it and \<^verbatim>\<open>scanAll\<close> rejects, although the other
  backend answered well.
\<close>

theorem scan_returns_unshaped_body:
  "scan (sast_answers v) sast_client sample_request = Unshaped v
   \<and> scanAll (sast_answers (JObj [(''foo'', JNum 1)])) (new_Router two_scanners) sample_request None
        = RejectsTypeError
   \<and> scanAll (sast_answers (JObj [])) (new_Router two_scanners) sample_request None
        = RejectsTypeError
   \<and> scanAll (sast_answers JNull) (new_Router two_scanners) sample_request None
        = RejectsTypeError"
  by (simp add: scanAll_collect two_scanners_dispatched sast_answers_scan_sast
        sast_answers_scan_deps unshaped_step_def)


text \<open>
  Claim C8.  For a name that is not among the enabled backends of the configuration,
  \<^verbatim>\<open>scanWith\<close> returns a result with no findings, \<^verbatim>\<open>duration_ms\<close> 0 and no \<^verbatim>\<open>warnings\<close> entry;
  it does not raise.
\<close>

lemma register_scanners_keys:
  "fst ` set (register_scanners cfg cs) = fst ` set cs \<union> fst ` {e \<in> set cfg. enabled (snd e)}"
proof (induction cfg cs rule: register_scanners.induct)
  case (1 cs)
  then show ?case by simp
next
  case (2 name sc rest cs)
  have k: "fst ` set (obj_set cs name v) = insert name (fst ` set cs)" for v
    by (induction cs name v rule: obj_set.induct) auto
  have h: "{e \<in> set ((name, sc) # rest). enabled (snd e)}
         = (if enabled sc then insert (name, sc) {e \<in> set rest. enabled (snd e)}
            else {e \<in> set rest. enabled (snd e)})"
    by auto
  show ?case
  proof (cases "enabled sc")
    case True
    then show ?thesis
      using 2 unfolding h by (simp add: k Un_commute insert_commute)
  next
    case False
    then show ?thesis
      using 2 unfolding h by simp
  qed
qed

theorem scanWith_not_enabled:
  assumes "name \<notin> set (map fst (filter (\<lambda>e. enabled (snd e)) cfg))"
  shows "scanWith w (new_Router cfg) name req =
     Shaped
       \<lparr>findings = [],
        metadata = \<lparr>scanner = name, version = ''0.0.0'', duration_ms = 0, files_scanned = 0,
                    timestamp = date_iso w name, warnings = None\<rparr>\<rparr>"
proof -
  have "name \<notin> fst ` set (clients (new_Router cfg))"
    using assms by (auto simp: new_Router_def register_scanners_keys)
  then have "map_of (clients (new_Router cfg)) name = None"
    by (simp add: map_of_eq_None_iff)
  then show ?thesis
    by (simp add: scanWith_def)
qed


theorem scanWith_not_enabled_witness:
  "''dast'' \<notin> set (map fst (filter (\<lambda>e. enabled (snd e)) two_scanners))
   \<and> scanWith (sast_down None) (new_Router two_scanners) ''dast'' sample_request =
       Shaped
         \<lparr>findings = [],
          metadata = \<lparr>scanner = ''dast'', version = ''0.0.0'', duration_ms = 0, files_scanned = 0,
                      timestamp = ''2026-01-01T00:00:01.000Z'', warnings = None\<rparr>\<rparr>"
proof -
  have h: "''dast'' \<notin> set (map fst (filter (\<lambda>e. enabled (snd e)) two_scanners))"
    by (simp add: two_scanners_def)
  have t: "date_iso (sast_down None) ''dast'' = ''2026-01-01T00:00:01.000Z''"
    by (simp add: sast_down_def backend_world_def)
  show ?thesis
    using h scanWith_not_enabled [OF h, of "sast_down None" sample_request] by (simp add: t)
qed


text \<open>
  Claim C1, as stated, on its warnings: with \<^verbatim>\<open>sast\<close> unreachable and \<^verbatim>\<open>deps\<close> answering, the
  merged warnings are not the single entry about \<^verbatim>\<open>sast\<close>.  The dependency backend returns
  two warnings of its own, one of them in the form that names \<^verbatim>\<open>sast\<close>; the router appends
  both, so the merged list has three entries and two of them name the failed backend.
\<close>

theorem scanAll_warnings_not_single:
  "dispatched (new_Router two_scanners) None = [(''sast'', sast_client), (''deps'', deps_client)]
   \<and> scan_try (sast_down (Some [''npm audit failed: timed out'', unavailable_warning ''sast'' ''rule pack not reachable''])) sast_client sample_request
        = Inl (JsError ''fetch failed'')
   \<and> scan_try (sast_down (Some [''npm audit failed: timed out'', unavailable_warning ''sast'' ''rule pack not reachable''])) deps_client sample_request
        = Inr (Shaped (deps_result (Some [''npm audit failed: timed out'', unavailable_warning ''sast'' ''rule pack not reachable''])))
   \<and> scanAll (sast_down (Some [''npm audit failed: timed out'', unavailable_warning ''sast'' ''rule pack not reachable''])) (new_Router two_scanners) sample_request None
        = Resolves
            \<lparr>findings = [sample_finding ''Vulnerable lodash'' ''package.json'' None (Some ''CWE-1321'') High],
             metadata = \<lparr>scanner = ''safeweave-gateway'', version = ''0.1.0'', duration_ms = 50,
                         files_scanned = 1, timestamp = ''2026-01-01T00:00:01.000Z'',
                         warnings = Some [unavailable_warning ''sast'' ''fetch failed'', ''npm audit failed: timed out'', unavailable_warning ''sast'' ''rule pack not reachable'']\<rparr>\<rparr>
   \<and> \<not> exactly_one_naming ''sast'' (Some [unavailable_warning ''sast'' ''fetch failed'', ''npm audit failed: timed out'', unavailable_warning ''sast'' ''rule pack not reachable''])"
proof -
  let ?ws = "Some [''npm audit failed: timed out'', unavailable_warning ''sast'' ''rule pack not reachable'']"
  have dd: "deduplicateFindings [sample_finding ''Vulnerable lodash'' ''package.json'' None (Some ''CWE-1321'') High]
          = [sample_finding ''Vulnerable lodash'' ''package.json'' None (Some ''CWE-1321'') High]"
    by (simp add: deduplicateFindings_def)
  have r: "scanAll (sast_down ?ws) (new_Router two_scanners) sample_request None
        = Resolves
            \<lparr>findings = [sample_finding ''Vulnerable lodash'' ''package.json'' None (Some ''CWE-1321'') High],
             metadata = \<lparr>scanner = ''safeweave-gateway'', version = ''0.1.0'', duration_ms = 50,
                         files_scanned = 1, timestamp = ''2026-01-01T00:00:01.000Z'',
                         warnings = Some [unavailable_warning ''sast'' ''fetch failed'', ''npm audit failed: timed out'', unavailable_warning ''sast'' ''rule pack not reachable'']\<rparr>\<rparr>"
    by (simp add: scanAll_collect two_scanners_dispatched sast_down_scan_sast sast_down_scan_deps
          degraded_result_def deps_result_def sast_client_name dd sast_down_clock
          sample_request_files)
  have n: "\<not> exactly_one_naming ''sast'' (Some [unavailable_warning ''sast'' ''fetch failed'', ''npm audit failed: timed out'', unavailable_warning ''sast'' ''rule pack not reachable''])"
    by (simp add: exactly_one_naming_def names_backend_def unavailable_warning_def apostrophe_def)
  show ?thesis
    using two_scanners_dispatched sast_down_sast [of ?ws] sast_down_deps [of ?ws] r n by blast
qed


lemma names_backend_unavailable: "names_backend n (unavailable_warning n message)"
  by (simp add: names_backend_def unavailable_warning_def)

lemma filter_concat_none:
  "list_all (\<lambda>v. list_all (\<lambda>x. \<not> P x) (f v)) vs \<Longrightarrow> filter P (concat (map f vs)) = []"
  by (induction vs) (auto simp: list_all_iff filter_empty_conv)

text \<open>
  Claim C1, amended.  One dispatched backend's call fails in a way the client converts
  (the \<^verbatim>\<open>try\<close> block of \<^verbatim>\<open>scan\<close> throws: a rejected \<^verbatim>\<open>fetch\<close>, a status outside 200 to 299, a
  body that is not JSON) and every other dispatched backend answers with a body of the
  \<^verbatim>\<open>ScanResult\<close> shape.  Then \<^verbatim>\<open>scanAll\<close> resolves; the findings of its result are the
  deduplication of the succeeding backends' findings concatenated in registration order,
  and its warnings are the warnings the succeeding backends returned, in registration
  order, with the single entry \<^verbatim>\<open>Scanner '<name>' unavailable: <reason>\<close> of the failed
  backend at that backend's position.  So exactly one entry names the failed backend
  whenever no succeeding backend returns a warning of that form itself.  Nothing is said
  here about a backend whose success response carries a body that is not a \<^verbatim>\<open>ScanResult\<close>.
\<close>

theorem scanAll_one_failed_backend:
  assumes sel: "dispatched (new_Router cfg) requested = pre @ [(n, c)] @ post"
    and fail: "scan_try w c req = Inl err"
    and ok1: "map (\<lambda>(m, d). scan_try w d req) pre = map (\<lambda>v. Inr (Shaped v)) rs1"
    and ok2: "map (\<lambda>(m, d). scan_try w d req) post = map (\<lambda>v. Inr (Shaped v)) rs2"
  shows "scanAll w (new_Router cfg) req requested =
           Resolves
             \<lparr>findings = deduplicateFindings (concat (map findings (rs1 @ rs2))),
              metadata = \<lparr>scanner = ''safeweave-gateway'', version = ''0.1.0'',
                          duration_ms = date_now w 1 - date_now w 0,
                          files_scanned = length (files req),
                          timestamp = date_iso w ''safeweave-gateway'',
                          warnings = Some (concat (map returned_warnings rs1)
                                           @ [unavailable_warning n (thrown_message err)]
                                           @ concat (map returned_warnings rs2))\<rparr>\<rparr>
       \<and> (list_all (\<lambda>v. list_all (\<lambda>x. \<not> names_backend n x) (returned_warnings v)) (rs1 @ rs2) \<longrightarrow>
            exactly_one_naming n
              (Some (concat (map returned_warnings rs1)
                     @ [unavailable_warning n (thrown_message err)]
                     @ concat (map returned_warnings rs2))))"
proof -
  have "(n, c) \<in> set (dispatched (new_Router cfg) requested)"
    by (simp add: sel)
  then have "(n, c) \<in> set (clients (new_Router cfg))"
    using dispatched_subset by blast
  then have name: "client_name c = n"
    by (rule new_Router_names)
  have failed: "scan w c req = Shaped (degraded_result w c (thrown_message err))"
    by (simp add: scan_def fail)
  have results: "map (\<lambda>(name, client). Fulfilled (scan w client req)) (dispatched (new_Router cfg) requested)
        = map (\<lambda>v. Fulfilled (Shaped v)) (rs1 @ [degraded_result w c (thrown_message err)] @ rs2)"
    by (simp add: sel scans_succeed [OF ok1] scans_succeed [OF ok2] failed)
  have coll: "collect_results (map (\<lambda>(name, client). Fulfilled (scan w client req)) (dispatched (new_Router cfg) requested)) ([], [])
        = Collected (concat (map findings (rs1 @ rs2)),
           concat (map returned_warnings rs1) @ [unavailable_warning n (thrown_message err)]
             @ concat (map returned_warnings rs2))"
    unfolding results collect_results_shaped
    by (simp add: degraded_result_def returned_warnings_def name)
  have res: "scanAll w (new_Router cfg) req requested =
           Resolves
             \<lparr>findings = deduplicateFindings (concat (map findings (rs1 @ rs2))),
              metadata = \<lparr>scanner = ''safeweave-gateway'', version = ''0.1.0'',
                          duration_ms = date_now w 1 - date_now w 0,
                          files_scanned = length (files req),
                          timestamp = date_iso w ''safeweave-gateway'',
                          warnings = Some (concat (map returned_warnings rs1)
                                           @ [unavailable_warning n (thrown_message err)]
                                           @ concat (map returned_warnings rs2))\<rparr>\<rparr>"
    unfolding scanAll_collect coll by simp
  have one: "list_all (\<lambda>v. list_all (\<lambda>x. \<not> names_backend n x) (returned_warnings v)) (rs1 @ rs2) \<longrightarrow>
            exactly_one_naming n
              (Some (concat (map returned_warnings rs1)
                     @ [unavailable_warning n (thrown_message err)]
                     @ concat (map returned_warnings rs2)))"
  proof
    assume h: "list_all (\<lambda>v. list_all (\<lambda>x. \<not> names_backend n x) (returned_warnings v)) (rs1 @ rs2)"
    then have h1: "list_all (\<lambda>v. list_all (\<lambda>x. \<not> names_backend n x) (returned_warnings v)) rs1"
      and h2: "list_all (\<lambda>v. list_all (\<lambda>x. \<not> names_backend n x) (returned_warnings v)) rs2"
      by simp_all
    have "filter (names_backend n)
            (concat (map returned_warnings rs1) @ [unavailable_warning n (thrown_message err)]
               @ concat (map returned_warnings rs2))
          = [unavailable_warning n (thrown_message err)]"
      by (simp add: filter_concat_none [OF h1] filter_concat_none [OF h2] names_backend_unavailable)
    then show "exactly_one_naming n
              (Some (concat (map returned_warnings rs1)
                     @ [unavailable_warning n (thrown_message err)]
                     @ concat (map returned_warnings rs2)))"
      by (simp add: exactly_one_naming_def)
  qed
  show ?thesis
    using res one by blast
qed

theorem scanAll_one_failed_backend_witness:
  "dispatched (new_Router two_scanners) None = [] @ [(''sast'', sast_client)] @ [(''deps'', deps_client)]
   \<and> scan_try (sast_down (Some [''npm audit failed: timed out''])) sast_client sample_request
        = Inl (JsError ''fetch failed'')
   \<and> scan_try (sast_down (Some [''npm audit failed: timed out''])) deps_client sample_request
        = Inr (Shaped (deps_result (Some [''npm audit failed: timed out''])))
   \<and> \<not> names_backend ''sast'' ''npm audit failed: timed out''
   \<and> scanAll (sast_down (Some [''npm audit failed: timed out''])) (new_Router two_scanners) sample_request None
        = Resolves
            \<lparr>findings = [sample_finding ''Vulnerable lodash'' ''package.json'' None (Some ''CWE-1321'') High],
             metadata = \<lparr>scanner = ''safeweave-gateway'', version = ''0.1.0'', duration_ms = 50,
                         files_scanned = 1, timestamp = ''2026-01-01T00:00:01.000Z'',
                         warnings = Some [unavailable_warning ''sast'' ''fetch failed'', ''npm audit failed: timed out'']\<rparr>\<rparr>
   \<and> exactly_one_naming ''sast'' (Some [unavailable_warning ''sast'' ''fetch failed'', ''npm audit failed: timed out''])"
proof -
  let ?ws = "Some [''npm audit failed: timed out'']"
  have sel: "dispatched (new_Router two_scanners) None = [] @ [(''sast'', sast_client)] @ [(''deps'', deps_client)]"
    by (simp add: dispatched_def two_scanners_clients)
  have fail: "scan_try (sast_down ?ws) sast_client sample_request = Inl (JsError ''fetch failed'')"
    by (rule sast_down_sast)
  have ok: "scan_try (sast_down ?ws) deps_client sample_request = Inr (Shaped (deps_result ?ws))"
    by (rule sast_down_deps)
  have ok1: "map (\<lambda>(m, d). scan_try (sast_down ?ws) d sample_request) [] = map (\<lambda>v. Inr (Shaped v)) []"
    by simp
  have ok2: "map (\<lambda>(m, d). scan_try (sast_down ?ws) d sample_request) [(''deps'', deps_client)]
           = map (\<lambda>v. Inr (Shaped v)) [deps_result ?ws]"
    by (simp add: ok)
  have dd: "deduplicateFindings (concat (map findings ([] @ [deps_result ?ws])))
          = [sample_finding ''Vulnerable lodash'' ''package.json'' None (Some ''CWE-1321'') High]"
    by (simp add: deduplicateFindings_def deps_result_def)
  have nn: "\<not> names_backend ''sast'' ''npm audit failed: timed out''"
    by (simp add: names_backend_def unavailable_warning_def apostrophe_def)
  have rw: "concat (map returned_warnings []) @ [unavailable_warning ''sast'' (thrown_message (JsError ''fetch failed''))]
              @ concat (map returned_warnings [deps_result ?ws])
          = [unavailable_warning ''sast'' ''fetch failed'', ''npm audit failed: timed out'']"
    by (simp add: returned_warnings_def deps_result_def)
  have env: "date_now (sast_down ?ws) 1 - date_now (sast_down ?ws) 0 = 50"
    "date_iso (sast_down ?ws) ''safeweave-gateway'' = ''2026-01-01T00:00:01.000Z''"
    "length (files sample_request) = 1"
    by (simp_all add: sast_down_clock sample_request_files)
  note th = scanAll_one_failed_backend [OF sel fail ok1 ok2, unfolded dd rw env]
  have hyp: "list_all (\<lambda>v. list_all (\<lambda>x. \<not> names_backend ''sast'' x) (returned_warnings v))
               ([] @ [deps_result ?ws])"
    by (simp add: returned_warnings_def deps_result_def nn)
  have r: "scanAll (sast_down ?ws) (new_Router two_scanners) sample_request None
        = Resolves
            \<lparr>findings = [sample_finding ''Vulnerable lodash'' ''package.json'' None (Some ''CWE-1321'') High],
             metadata = \<lparr>scanner = ''safeweave-gateway'', version = ''0.1.0'', duration_ms = 50,
                         files_scanned = 1, timestamp = ''2026-01-01T00:00:01.000Z'',
                         warnings = Some [unavailable_warning ''sast'' ''fetch failed'', ''npm audit failed: timed out'']\<rparr>\<rparr>"
    using th by blast
  have e: "exactly_one_naming ''sast'' (Some [unavailable_warning ''sast'' ''fetch failed'', ''npm audit failed: timed out''])"
    using th hyp by blast
  show ?thesis
    using sel fail ok nn r e by blast
qed


section \<open>Profile manager: proofs\<close>

lemma map_of_obj_set: "map_of (obj_set r k v) k' = (if k' = k then Some v else map_of r k')"
  by (induction r k v rule: obj_set.induct) auto

lemma map_of_obj_delete: "map_of (obj_delete r k) k' = (if k' = k then None else map_of r k')"
  by (induction r) (auto simp: obj_delete_def)

lemma merge_keys_step:
  "merge_keys t r ((key, srcVal) # rest) =
     (if skipped_key r key then merge_keys t r rest
      else merge_keys t (obj_set r key (merged_field (map_of t key) srcVal)) rest)"
proof (cases "skipped_key r key")
  case True
  then show ?thesis by (auto simp: skipped_key_def)
next
  case False
  then have k1: "key \<noteq> ''extends''" and k2: "\<not> (key = ''__proto__'' \<and> map_of r key = None)"
    by (simp_all add: skipped_key_def)
  have "merge_keys t r ((key, srcVal) # rest) =
      (case (srcVal, map_of t key) of
         (JObj s, Some (JObj t')) \<Rightarrow>
           merge_keys t (obj_set r key (JObj (merge_keys t' t' s))) rest
       | _ \<Rightarrow> merge_keys t (obj_set r key srcVal) rest)"
    using k1 k2 by (simp only: merge_keys.simps if_False)
  also have "\<dots> = merge_keys t (obj_set r key (merged_field (map_of t key) srcVal)) rest"
    by (simp add: merged_field_def deepMerge_def split: json.split option.split)
  finally show ?thesis using False by (simp only: if_False)
qed

declare merge_keys.simps(2) [simp del]

lemma skipped_key_obj_set:
  "k \<noteq> key \<Longrightarrow> skipped_key (obj_set r key v) k = skipped_key r k"
  by (simp add: skipped_key_def map_of_obj_set)

lemma merge_keys_lookup:
  "distinct (map fst s) \<Longrightarrow>
   map_of (merge_keys t r s) k =
     (case map_of s k of
        None \<Rightarrow> map_of r k
      | Some sv \<Rightarrow>
          if skipped_key r k then map_of r k
          else Some (merged_field (map_of t k) sv))"
proof (induction s arbitrary: r k)
  case Nil
  then show ?case by simp
next
  case (Cons a s)
  obtain key srcVal where a: "a = (key, srcVal)" by (cases a)
  from Cons.prems a have d: "distinct (map fst s)" and nk: "map_of s key = None"
    by (auto simp: map_of_eq_None_iff)
  note IH = Cons.IH [OF d]
  show ?case
  proof (cases "skipped_key r key")
    case True
    then have step: "merge_keys t r ((key, srcVal) # s) = merge_keys t r s"
      by (simp only: merge_keys_step if_True)
    show ?thesis
    proof (cases "k = key")
      case True
      have "map_of (merge_keys t r s) key = map_of r key"
        by (simp add: IH nk)
      then show ?thesis
        using True \<open>skipped_key r key\<close> by (simp add: step a)
    next
      case False
      then show ?thesis
        by (simp add: step a IH)
    qed
  next
    case False
    then have step: "merge_keys t r ((key, srcVal) # s) = merge_keys t (obj_set r key (merged_field (map_of t key) srcVal)) s"
      by (simp only: merge_keys_step if_False)
    show ?thesis
    proof (cases "k = key")
      case True
      have "map_of (merge_keys t (obj_set r key (merged_field (map_of t key) srcVal)) s) key
              = Some (merged_field (map_of t key) srcVal)"
        by (simp add: IH nk map_of_obj_set)
      then show ?thesis
        using True \<open>\<not> skipped_key r key\<close> by (simp add: step a)
    next
      case False
      then show ?thesis
        by (simp add: step a IH map_of_obj_set skipped_key_obj_set split: option.split)
    qed
  qed
qed


lemma deepMerge_lookup:
  "distinct (map fst source) \<Longrightarrow>
   map_of (deepMerge target source) k =
     (case map_of source k of
        None \<Rightarrow> map_of target k
      | Some sv \<Rightarrow>
          if skipped_key target k then map_of target k
          else Some (merged_field (map_of target k) sv))"
  unfolding deepMerge_def by (rule merge_keys_lookup)

lemma loadCustomProfile_own_base:
  assumes "js_get (profiles pm) baseName = Own base"
    and "map_of source ''extends'' = Some (JStr baseName)"
    and "baseName \<noteq> []"
  shows "loadCustomProfile pm (FileParsed (JObj source)) =
     (Returned (obj_delete (obj_set (deepMerge base source) ''name'' (JStr ''custom'')) ''extends''),
      pm\<lparr>profiles := obj_set (profiles pm) ''custom''
            (obj_delete (obj_set (deepMerge base source) ''name'' (JStr ''custom'')) ''extends'')\<rparr>)"
  using assms by (simp add: loadCustomProfile_def Let_def)

lemma secrets_off_example:
  "loadCustomProfile (new_ProfileManager []) (FileParsed (JObj secrets_off_override)) =
     (Returned custom_secrets_off,
      (new_ProfileManager [])\<lparr>profiles :=
         obj_set (profiles (new_ProfileManager [])) ''custom'' custom_secrets_off\<rparr>)"
  by code_simp

text \<open>On the specification's example the code and the specification's merge agree.\<close>

lemma spec_agrees_on_example:
  "fst (loadCustomProfile (new_ProfileManager []) (FileParsed (JObj secrets_off_override)))
     = Returned (spec_custom_profile standard_profile secrets_off_override)"
  by code_simp

text \<open>
  Claim C5, as stated: the custom profile is the deep merge of the specification
  (\<open>spec_custom_profile\<close>: object-valued fields merge key by key, every other field of the
  override replaces the base, the top-level marker is stripped).  It fails for an override
  that sets the scalar field \<^verbatim>\<open>rules.sast.extends\<close>: \<^verbatim>\<open>deepMerge\<close> passes over a key named
  \<^verbatim>\<open>extends\<close> at every level it recurses into, so the merged profile is the standard one
  renamed and the field is lost.
\<close>

theorem loadCustomProfile_not_spec_merge:
  "fst (loadCustomProfile (new_ProfileManager []) (FileParsed (JObj nested_extends_override)))
     = Returned (obj_set standard_profile ''name'' (JStr ''custom''))
   \<and> fst (loadCustomProfile (new_ProfileManager []) (FileParsed (JObj nested_extends_override)))
     \<noteq> Returned (spec_custom_profile standard_profile nested_extends_override)"
  by code_simp


text \<open>
  Claim C5, amended.  With a present override that declares a registered base,
  \<^verbatim>\<open>loadCustomProfile\<close> merges the override onto the base so that, at every level the merge
  reaches, a field the override sets holds the recursive merge when both values are
  non-array objects and the override's value otherwise, a field the override does not set
  keeps the base value, and a field named \<^verbatim>\<open>extends\<close> (or \<^verbatim>\<open>__proto__\<close>, unless the base has
  it as an own property) keeps the base value whatever the override says.  The result has
  the name \<^verbatim>\<open>custom\<close> and no \<^verbatim>\<open>extends\<close> field, is registered under \<^verbatim>\<open>custom\<close> and returned.
  For \<^verbatim>\<open>extends: standard\<close> with \<^verbatim>\<open>{rules: {secrets: {enabled: false}}}\<close> it is the standard
  profile with \<^verbatim>\<open>rules.secrets.enabled\<close> false and every other entry as before.
\<close>

theorem loadCustomProfile_deep_merge:
  "(distinct (map fst source) \<and> \<not> skipped_key target k \<longrightarrow>
      map_of (deepMerge target source) k =
        (case map_of source k of
           None \<Rightarrow> map_of target k
         | Some sv \<Rightarrow> Some (merged_field (map_of target k) sv)))
   \<and> (distinct (map fst source) \<and> skipped_key target k \<longrightarrow>
      map_of (deepMerge target source) k = map_of target k)
   \<and> (js_get (profiles pm) baseName = Own base
        \<and> map_of source ''extends'' = Some (JStr baseName) \<and> baseName \<noteq> [] \<longrightarrow>
      (\<exists>merged.
         loadCustomProfile pm (FileParsed (JObj source)) =
           (Returned merged, pm\<lparr>profiles := obj_set (profiles pm) ''custom'' merged\<rparr>)
         \<and> map_of merged ''name'' = Some (JStr ''custom'')
         \<and> map_of merged ''extends'' = None
         \<and> getProfile (pm\<lparr>profiles := obj_set (profiles pm) ''custom'' merged\<rparr>) ''custom'' = Own merged
         \<and> (\<forall>f. f \<noteq> ''name'' \<and> f \<noteq> ''extends'' \<longrightarrow>
               map_of merged f = map_of (deepMerge base source) f)))
   \<and> loadCustomProfile (new_ProfileManager []) (FileParsed (JObj secrets_off_override)) =
       (Returned custom_secrets_off,
        (new_ProfileManager [])\<lparr>profiles :=
           obj_set (profiles (new_ProfileManager [])) ''custom'' custom_secrets_off\<rparr>)"
proof -
  have a: "distinct (map fst source) \<and> \<not> skipped_key target k \<longrightarrow>
      map_of (deepMerge target source) k =
        (case map_of source k of
           None \<Rightarrow> map_of target k
         | Some sv \<Rightarrow> Some (merged_field (map_of target k) sv))"
    by (simp add: deepMerge_lookup split: option.split)
  have b: "distinct (map fst source) \<and> skipped_key target k \<longrightarrow>
      map_of (deepMerge target source) k = map_of target k"
    by (simp add: deepMerge_lookup split: option.split)
  have c: "js_get (profiles pm) baseName = Own base
        \<and> map_of source ''extends'' = Some (JStr baseName) \<and> baseName \<noteq> [] \<longrightarrow>
      (\<exists>merged.
         loadCustomProfile pm (FileParsed (JObj source)) =
           (Returned merged, pm\<lparr>profiles := obj_set (profiles pm) ''custom'' merged\<rparr>)
         \<and> map_of merged ''name'' = Some (JStr ''custom'')
         \<and> map_of merged ''extends'' = None
         \<and> getProfile (pm\<lparr>profiles := obj_set (profiles pm) ''custom'' merged\<rparr>) ''custom'' = Own merged
         \<and> (\<forall>f. f \<noteq> ''name'' \<and> f \<noteq> ''extends'' \<longrightarrow>
               map_of merged f = map_of (deepMerge base source) f))"
  proof
    assume h: "js_get (profiles pm) baseName = Own base
        \<and> map_of source ''extends'' = Some (JStr baseName) \<and> baseName \<noteq> []"
    let ?m = "obj_delete (obj_set (deepMerge base source) ''name'' (JStr ''custom'')) ''extends''"
    have l: "loadCustomProfile pm (FileParsed (JObj source)) =
        (Returned ?m, pm\<lparr>profiles := obj_set (profiles pm) ''custom'' ?m\<rparr>)"
      using h loadCustomProfile_own_base [of pm baseName base source] by blast
    have "map_of ?m ''name'' = Some (JStr ''custom'')"
      by (simp add: map_of_obj_delete map_of_obj_set)
    moreover have "map_of ?m ''extends'' = None"
      by (simp add: map_of_obj_delete)
    moreover have "getProfile (pm\<lparr>profiles := obj_set (profiles pm) ''custom'' ?m\<rparr>) ''custom'' = Own ?m"
      by (simp add: getProfile_def js_get_def map_of_obj_set)
    moreover have "\<forall>f. f \<noteq> ''name'' \<and> f \<noteq> ''extends'' \<longrightarrow> map_of ?m f = map_of (deepMerge base source) f"
      by (simp add: map_of_obj_delete map_of_obj_set)
    ultimately show "\<exists>merged.
         loadCustomProfile pm (FileParsed (JObj source)) =
           (Returned merged, pm\<lparr>profiles := obj_set (profiles pm) ''custom'' merged\<rparr>)
         \<and> map_of merged ''name'' = Some (JStr ''custom'')
         \<and> map_of merged ''extends'' = None
         \<and> getProfile (pm\<lparr>profiles := obj_set (profiles pm) ''custom'' merged\<rparr>) ''custom'' = Own merged
         \<and> (\<forall>f. f \<noteq> ''name'' \<and> f \<noteq> ''extends'' \<longrightarrow>
               map_of merged f = map_of (deepMerge base source) f)"
      using l by blast
  qed
  show ?thesis
    using a b c secrets_off_example by blast
qed

theorem loadCustomProfile_deep_merge_witness:
  "distinct (map fst secrets_off_override)
   \<and> \<not> skipped_key standard_profile ''rules''
   \<and> map_of (deepMerge standard_profile secrets_off_override) ''rules'' = map_of custom_secrets_off ''rules''
   \<and> skipped_key standard_profile ''extends''
   \<and> map_of (deepMerge standard_profile secrets_off_override) ''extends'' = None
   \<and> js_get (profiles (new_ProfileManager [])) ''standard'' = Own standard_profile
   \<and> map_of secrets_off_override ''extends'' = Some (JStr ''standard'')
   \<and> fst (loadCustomProfile (new_ProfileManager []) (FileParsed (JObj secrets_off_override)))
        = Returned custom_secrets_off"
proof -
  have h1: "distinct (map fst secrets_off_override)"
    by (simp add: secrets_off_override_def)
  have h2: "\<not> skipped_key standard_profile ''rules''" "skipped_key standard_profile ''extends''"
    by (simp_all add: skipped_key_def)
  have h3: "js_get (profiles (new_ProfileManager [])) ''standard'' = Own standard_profile"
    by code_simp
  have h4: "map_of secrets_off_override ''extends'' = Some (JStr ''standard'')"
    by (simp add: secrets_off_override_def)
  have e1: "(case map_of secrets_off_override ''rules'' of
               None \<Rightarrow> map_of standard_profile ''rules''
             | Some sv \<Rightarrow> Some (merged_field (map_of standard_profile ''rules'') sv))
            = map_of custom_secrets_off ''rules''"
    by code_simp
  have e2: "map_of standard_profile ''extends'' = None"
    by (simp add: standard_profile_def)
  show ?thesis
    using h1 h2 h3 h4 e1 e2
      loadCustomProfile_deep_merge [of secrets_off_override standard_profile "''rules''"]
      loadCustomProfile_deep_merge [of secrets_off_override standard_profile "''extends''"]
    by simp
qed


text \<open>
  For a name that resolves to nothing, \<^verbatim>\<open>setActive\<close> throws before it assigns, with a message
  that lists the known names.
\<close>

lemma setActive_unknown:
  "js_get (profiles pm) name = Undefined \<Longrightarrow>
   setActive pm name =
     Inl (JsError (''Unknown profile: '' @ name @ ''. Available: '' @ js_join '', '' (map fst (profiles pm))))"
  by (simp add: setActive_def listProfiles_def)

lemma setActive_nonexistent:
  "setActive (new_ProfileManager []) ''nonexistent''
     = Inl (JsError ''Unknown profile: nonexistent. Available: standard, hardened, owasp, soc2, pci-dss, hipaa'')"
  by code_simp


text \<open>
  Claim C7, at the name \<^verbatim>\<open>constructor\<close>.  It is not a registered profile (\<^verbatim>\<open>listProfiles\<close>
  does not list it), yet \<^verbatim>\<open>this.profiles[name]\<close> finds the member inherited from
  \<^verbatim>\<open>Object.prototype\<close>, the guard does not fire, and \<^verbatim>\<open>setActive\<close> returns normally with the
  active name changed: \<^verbatim>\<open>getActive\<close> gave the standard profile before and gives the inherited
  member afterwards.
\<close>

theorem setActive_inherited_name:
  "setActive (new_ProfileManager []) ''constructor''
     = Inr ((new_ProfileManager [])\<lparr>activeProfile := ''constructor''\<rparr>)
   \<and> ''constructor'' \<notin> set (listProfiles (new_ProfileManager []))
   \<and> getActive (new_ProfileManager []) = Own standard_profile
   \<and> getActive ((new_ProfileManager [])\<lparr>activeProfile := ''constructor''\<rparr>) = Inherited ''constructor''"
  by code_simp


section \<open>License client and REST bridge: proofs\<close>

lemma validate_remote_calls: "snd (snd (validate_remote w cache key)) = [key]"
  by (simp add: validate_remote_def split: fetch_outcome.split json_body.split)

lemma validate_remote_valid:
  "post_validate w key = FetchResponse st (BodyJson v) \<Longrightarrow> response_ok st \<Longrightarrow> valid v \<Longrightarrow>
   validate_remote w cache key =
     (v, cache(key \<mapsto> \<lparr>entry_result = v, expiry = now_at_store w + CACHE_TTL_MS\<rparr>), [key])"
  by (simp add: validate_remote_def)

lemma validate_remote_invalid:
  "\<not> remote_valid (post_validate w key) \<Longrightarrow>
   \<not> valid (fst (validate_remote w cache key)) \<and> fst (snd (validate_remote w cache key)) = cache"
  by (auto simp: validate_remote_def remote_valid_def INVALID_RESULT_def split: fetch_outcome.splits json_body.splits)

lemma validate_miss:
  "no_fresh_entry cache key (now_at_check w) \<Longrightarrow> validate w cache key = validate_remote w cache key"
  by (auto simp: validate_def no_fresh_entry_def split: option.splits)

lemma validate_hit:
  "cache key = Some e \<Longrightarrow> now_at_check w < expiry e \<Longrightarrow> validate w cache key = (entry_result e, cache, [])"
  by (simp add: validate_def)

text \<open>
  Claim C6.  Starting without a fresh cache entry for the key, a \<^verbatim>\<open>validate\<close> call that gets
  a valid verdict issues one remote call and caches the verdict until the store time plus
  the TTL; a second call before that time is served from the cache with no remote call,
  and a call at or after it issues a remote call again.  A call that gets an invalid
  verdict or cannot reach the server returns a verdict that is not valid, leaves the cache
  as it was, and the next call (at no earlier clock reading) issues a remote call again.
\<close>

theorem validate_cache_ttl:
  "(no_fresh_entry cache key (now_at_check w1)
      \<and> post_validate w1 key = FetchResponse st (BodyJson v) \<and> response_ok st \<and> valid v \<longrightarrow>
      validate w1 cache key =
        (v, cache(key \<mapsto> \<lparr>entry_result = v, expiry = now_at_store w1 + CACHE_TTL_MS\<rparr>), [key])
      \<and> (now_at_check w2 < now_at_store w1 + CACHE_TTL_MS \<longrightarrow>
            validate w2 (cache(key \<mapsto> \<lparr>entry_result = v, expiry = now_at_store w1 + CACHE_TTL_MS\<rparr>)) key
              = (v, cache(key \<mapsto> \<lparr>entry_result = v, expiry = now_at_store w1 + CACHE_TTL_MS\<rparr>), []))
      \<and> (now_at_store w1 + CACHE_TTL_MS \<le> now_at_check w2 \<longrightarrow>
            snd (snd (validate w2 (cache(key \<mapsto> \<lparr>entry_result = v, expiry = now_at_store w1 + CACHE_TTL_MS\<rparr>)) key))
              = [key]))
   \<and> (no_fresh_entry cache key (now_at_check w1) \<and> \<not> remote_valid (post_validate w1 key) \<longrightarrow>
      \<not> valid (fst (validate w1 cache key))
      \<and> fst (snd (validate w1 cache key)) = cache
      \<and> snd (snd (validate w1 cache key)) = [key]
      \<and> (now_at_check w1 \<le> now_at_check w2 \<longrightarrow> snd (snd (validate w2 cache key)) = [key]))"
proof -
  let ?c = "cache(key \<mapsto> \<lparr>entry_result = v, expiry = now_at_store w1 + CACHE_TTL_MS\<rparr>)"
  have a: "no_fresh_entry cache key (now_at_check w1)
      \<and> post_validate w1 key = FetchResponse st (BodyJson v) \<and> response_ok st \<and> valid v \<longrightarrow>
      validate w1 cache key = (v, ?c, [key])"
    by (simp add: validate_miss validate_remote_valid)
  have b: "now_at_check w2 < now_at_store w1 + CACHE_TTL_MS \<longrightarrow> validate w2 ?c key = (v, ?c, [])"
    by (simp add: validate_def)
  have c: "now_at_store w1 + CACHE_TTL_MS \<le> now_at_check w2 \<longrightarrow> snd (snd (validate w2 ?c key)) = [key]"
    by (simp add: validate_def validate_remote_calls)
  have d: "no_fresh_entry cache key (now_at_check w1) \<and> \<not> remote_valid (post_validate w1 key) \<longrightarrow>
      \<not> valid (fst (validate w1 cache key))
      \<and> fst (snd (validate w1 cache key)) = cache
      \<and> snd (snd (validate w1 cache key)) = [key]"
    by (simp add: validate_miss validate_remote_invalid validate_remote_calls)
  have e: "no_fresh_entry cache key (now_at_check w1) \<and> now_at_check w1 \<le> now_at_check w2 \<longrightarrow>
      snd (snd (validate w2 cache key)) = [key]"
  proof
    assume h: "no_fresh_entry cache key (now_at_check w1) \<and> now_at_check w1 \<le> now_at_check w2"
    then have "no_fresh_entry cache key (now_at_check w2)"
      by (auto simp: no_fresh_entry_def split: option.splits)
    then show "snd (snd (validate w2 cache key)) = [key]"
      by (simp add: validate_miss validate_remote_calls)
  qed
  show ?thesis
    using a b c d e by blast
qed

theorem validate_cache_ttl_witness:
  "no_fresh_entry Map.empty ''KEY-1'' 1000
   \<and> validate (license_server (FetchResponse 200 (BodyJson pro_verdict)) 1000 1200) Map.empty ''KEY-1''
       = (pro_verdict,
          [''KEY-1'' \<mapsto> \<lparr>entry_result = pro_verdict, expiry = 1200 + CACHE_TTL_MS\<rparr>],
          [''KEY-1''])
   \<and> validate (license_server (FetchRejects (JsError ''fetch failed'')) 3601199 3601199)
         [''KEY-1'' \<mapsto> \<lparr>entry_result = pro_verdict, expiry = 1200 + CACHE_TTL_MS\<rparr>] ''KEY-1''
       = (pro_verdict,
          [''KEY-1'' \<mapsto> \<lparr>entry_result = pro_verdict, expiry = 1200 + CACHE_TTL_MS\<rparr>],
          [])
   \<and> snd (snd (validate (license_server (FetchRejects (JsError ''fetch failed'')) 3601200 3601200)
         [''KEY-1'' \<mapsto> \<lparr>entry_result = pro_verdict, expiry = 1200 + CACHE_TTL_MS\<rparr>] ''KEY-1''))
       = [''KEY-1'']
   \<and> \<not> remote_valid (FetchResponse 200 (BodyJson revoked_verdict))
   \<and> \<not> valid (fst (validate (license_server (FetchResponse 200 (BodyJson revoked_verdict)) 1000 1200) Map.empty ''KEY-1''))
   \<and> snd (snd (validate (license_server (FetchResponse 200 (BodyJson revoked_verdict)) 1000 1200) Map.empty ''KEY-1''))
       = [''KEY-1'']
   \<and> snd (snd (validate (license_server (FetchResponse 200 (BodyJson revoked_verdict)) 1300 1500)
         (fst (snd (validate (license_server (FetchResponse 200 (BodyJson revoked_verdict)) 1000 1200) Map.empty ''KEY-1'')))
         ''KEY-1''))
       = [''KEY-1'']"
proof -
  have h1: "no_fresh_entry Map.empty ''KEY-1'' 1000"
    by (simp add: no_fresh_entry_def)
  have h2: "response_ok 200 \<and> valid pro_verdict"
    by (simp add: response_ok_def pro_verdict_def)
  have h3: "\<not> remote_valid (FetchResponse 200 (BodyJson revoked_verdict))"
    by (simp add: remote_valid_def revoked_verdict_def)
  show ?thesis
    using h1 h2 h3
      validate_cache_ttl [of Map.empty "''KEY-1''"
        "license_server (FetchResponse 200 (BodyJson pro_verdict)) 1000 1200" 200 pro_verdict
        "license_server (FetchRejects (JsError ''fetch failed'')) 3601199 3601199"]
      validate_cache_ttl [of Map.empty "''KEY-1''"
        "license_server (FetchResponse 200 (BodyJson pro_verdict)) 1000 1200" 200 pro_verdict
        "license_server (FetchRejects (JsError ''fetch failed'')) 3601200 3601200"]
      validate_cache_ttl [of Map.empty "''KEY-1''"
        "license_server (FetchResponse 200 (BodyJson revoked_verdict)) 1000 1200" 200 revoked_verdict
        "license_server (FetchResponse 200 (BodyJson revoked_verdict)) 1300 1500"]
    by (simp add: license_server_def CACHE_TTL_MS_def)
qed


text \<open>The licensed route answers 403 exactly when \<^verbatim>\<open>validate\<close> returns a verdict that is not
  valid, whatever made it so.\<close>

lemma api_scan_403_iff:
  "answer_status (fst (api_scan w lw br cache body)) = Some 403
     \<longleftrightarrow> \<not> valid (fst (validate lw cache (LICENSE_KEY br)))"
  by (cases "validate lw cache (LICENSE_KEY br)")
     (auto simp: api_scan_def sendJson_def run_scan_def Let_def
           split: api_body.splits js_prop.splits prod.splits scan_all_outcome.splits)

text \<open>
  Claim C2 says that the scan proceeds when the license server is unreachable.  With an
  empty cache and a license server whose \<^verbatim>\<open>fetch\<close> rejects (network error, timeout), or
  which answers 503, the route answers 403 for every request body: \<^verbatim>\<open>validate\<close> has turned
  the failure into \<^verbatim>\<open>INVALID_RESULT\<close> before the route's own \<^verbatim>\<open>catch\<close> could see it.
\<close>

theorem api_scan_unreachable_license:
  "answer_status (fst (api_scan w \<lparr>post_validate = (\<lambda>key. FetchRejects err), now_at_check = t1, now_at_store = t2\<rparr>
       br Map.empty body)) = Some 403
   \<and> answer_status (fst (api_scan w \<lparr>post_validate = (\<lambda>key. FetchResponse 503 b), now_at_check = t1, now_at_store = t2\<rparr>
       br Map.empty body)) = Some 403"
  by (simp add: api_scan_def validate_def validate_remote_def response_ok_def INVALID_RESULT_def sendJson_def)


end
